theory Spec2Isabelle
  imports Complex_Main "HOL-Library.Sublist"
begin

section \<open>Python string primitives used by the script\<close>

text \<open>
  The script only ever splits, counts and joins on the single characters comma and
  newline, so the separator is a \<^typ>\<open>char\<close>.
\<close>

abbreviation comma :: char where
  "comma \<equiv> CHR '',''"

abbreviation newline :: char where
  "newline \<equiv> CHR 0x0A"

text \<open>
  \<^verbatim>\<open>s.split(sep)\<close> for a one-character separator: the result is never empty, and
  \<^verbatim>\<open>''.split(',')\<close> is \<^verbatim>\<open>['']\<close>.
\<close>

fun split :: "char \<Rightarrow> string \<Rightarrow> string list" where
  "split sep [] = [[]]"
| "split sep (c # cs) =
     (if c = sep then [] # split sep cs
      else (case split sep cs of
              [] \<Rightarrow> [[c]]
            | p # ps \<Rightarrow> (c # p) # ps))"

text \<open>\<^verbatim>\<open>sep.join(parts)\<close> for a one-character separator.\<close>

fun join :: "char \<Rightarrow> string list \<Rightarrow> string" where
  "join sep [] = []"
| "join sep [p] = p"
| "join sep (p # q # ps) = p @ sep # join sep (q # ps)"

text \<open>\<^verbatim>\<open>s.count(c)\<close> for a one-character argument.\<close>

definition count :: "char \<Rightarrow> string \<Rightarrow> nat" where
  "count c s = length (filter (\<lambda>x. x = c) s)"

text \<open>
  Strings stand for Python's \<^verbatim>\<open>str\<close> through their UTF-8 bytes: a
  \<^typ>\<open>char\<close> is one byte, an ASCII character is one \<^typ>\<open>char\<close>, and a code point
  beyond U+007F is the two or three bytes of its encoding. Splitting, counting and
  joining on an ASCII separator are the same on bytes as on code points.

  \<^verbatim>\<open>space_seqs\<close> lists the encodings of the code points that \<^verbatim>\<open>str.strip()\<close>
  removes: U+0009..U+000D, U+001C..U+0020, U+0085, U+00A0, U+1680, U+2000..U+200A,
  U+2028, U+2029, U+202F, U+205F and U+3000.
\<close>

definition space_seqs :: "string list" where
  "space_seqs =
     [[CHR 0x09], [CHR 0x0A], [CHR 0x0B], [CHR 0x0C], [CHR 0x0D],
      [CHR 0x1C], [CHR 0x1D], [CHR 0x1E], [CHR 0x1F], [CHR 0x20],
      [CHR 0xC2, CHR 0x85], [CHR 0xC2, CHR 0xA0],
      [CHR 0xE1, CHR 0x9A, CHR 0x80],
      [CHR 0xE2, CHR 0x80, CHR 0x80], [CHR 0xE2, CHR 0x80, CHR 0x81],
      [CHR 0xE2, CHR 0x80, CHR 0x82], [CHR 0xE2, CHR 0x80, CHR 0x83],
      [CHR 0xE2, CHR 0x80, CHR 0x84], [CHR 0xE2, CHR 0x80, CHR 0x85],
      [CHR 0xE2, CHR 0x80, CHR 0x86], [CHR 0xE2, CHR 0x80, CHR 0x87],
      [CHR 0xE2, CHR 0x80, CHR 0x88], [CHR 0xE2, CHR 0x80, CHR 0x89],
      [CHR 0xE2, CHR 0x80, CHR 0x8A],
      [CHR 0xE2, CHR 0x80, CHR 0xA8], [CHR 0xE2, CHR 0x80, CHR 0xA9],
      [CHR 0xE2, CHR 0x80, CHR 0xAF], [CHR 0xE2, CHR 0x81, CHR 0x9F],
      [CHR 0xE3, CHR 0x80, CHR 0x80]]"

text \<open>Dropping, from the front, every leading occurrence of one of the sequences.\<close>

function drop_leading :: "string list \<Rightarrow> string \<Rightarrow> string" where
  "drop_leading ws s =
     (case List.find (\<lambda>w. w \<noteq> [] \<and> prefix w s) ws of
        None \<Rightarrow> s
      | Some w \<Rightarrow> drop_leading ws (drop (length w) s))"
  by pat_completeness auto
termination
proof (relation "measure (\<lambda>(ws, s). length s)")
  show "wf (measure (\<lambda>(ws, s). length s))" by simp
next
  fix ws :: "string list" and s w :: string
  assume "List.find (\<lambda>w. w \<noteq> [] \<and> prefix w s) ws = Some w"
  then have "w \<noteq> []" and "prefix w s"
    by (auto simp: find_Some_iff)
  then have "s \<noteq> []" by auto
  with \<open>w \<noteq> []\<close> show "((ws, drop (length w) s), (ws, s)) \<in> measure (\<lambda>(ws, s). length s)"
    by simp
qed

declare drop_leading.simps [simp del]

definition lstrip :: "string \<Rightarrow> string" where
  "lstrip s = drop_leading space_seqs s"

definition rstrip :: "string \<Rightarrow> string" where
  "rstrip s = rev (drop_leading (map rev space_seqs) (rev s))"

definition strip :: "string \<Rightarrow> string" where
  "strip s = rstrip (lstrip s)"

text \<open>
  \<^verbatim>\<open>s.replace(old, new)\<close> for a non-empty \<^verbatim>\<open>old\<close>: occurrences are replaced
  from the left and do not overlap.
\<close>

function replace :: "string \<Rightarrow> string \<Rightarrow> string \<Rightarrow> string" where
  "replace old new s =
     (if old = [] then s
      else if prefix old s then new @ replace old new (drop (length old) s)
      else (case s of [] \<Rightarrow> [] | c # cs \<Rightarrow> c # replace old new cs))"
  by pat_completeness auto
termination
  by (relation "measure (\<lambda>(old, new, s). length s)") (auto simp: prefix_def)

declare replace.simps [simp del]

section \<open>The row repair loader\<close>

datatype error =
    IndexError
  | FileNotFoundError
  | ParserError
  | ValueError
  | OtherError string

text \<open>
  The body of the loop of \<^verbatim>\<open>load_csv\<close> for one data line: what the line adds to
  \<^verbatim>\<open>good_lines\<close>.
\<close>

definition fixed_line :: "string \<Rightarrow> string" where
  "fixed_line line =
     (let parts = split comma line
      in join comma (take 7 parts @ [join comma (drop 7 parts)]))"

definition repair_line :: "string \<Rightarrow> string list" where
  "repair_line line =
     (if strip line = [] then []
      else if count comma line = 7 then [line]
      else (let parts = split comma line
            in if length parts = 9 then [fixed_line line] else []))"

text \<open>
  \<^verbatim>\<open>good_lines\<close> as it stands when the loop ends. \<^verbatim>\<open>lines[0]\<close> raises on an empty
  list.
\<close>

definition good_lines :: "string \<Rightarrow> error + string list" where
  "good_lines content =
     (let content' = replace ''bob.wilson@,'' ''bob.wilson@company.com'' content;
          lines = split newline content'
      in (case lines of
            [] \<Rightarrow> Inl IndexError
          | header # rest \<Rightarrow> Inr (header # concat (map repair_line rest))))"

text \<open>
  \<^verbatim>\<open>load_csv\<close>, after the file has been read: the table parser \<^verbatim>\<open>pd.read_csv\<close> is a
  parameter, applied to the text of the kept lines.
\<close>

definition load_csv :: "(string \<Rightarrow> error + 't) \<Rightarrow> string \<Rightarrow> error + 't" where
  "load_csv read_csv content =
     (case good_lines content of
        Inl e \<Rightarrow> Inl e
      | Inr ls \<Rightarrow> read_csv (join newline ls))"

text \<open>
  The two shapes of a data line that the loop keeps: not blank, and either seven commas
  or nine comma-separated parts.
\<close>

definition accepted :: "string \<Rightarrow> bool" where
  "accepted l = (strip l \<noteq> [] \<and> (count comma l = 7 \<or> length (split comma l) = 9))"

section \<open>Tables\<close>

text \<open>
  A table is the list of its rows, a row a record of its cells. A missing value
  (\<^verbatim>\<open>NaN\<close>) is \<^term>\<open>None\<close>. Numbers are exact rationals: rounding to binary
  floating point is not modelled. Two missing cells are equal, which is how
  \<^verbatim>\<open>drop_duplicates\<close>, \<^verbatim>\<open>duplicated\<close> and \<^verbatim>\<open>merge\<close> compare them.

  An age is a floating-point number as the table parser reads it: a finite number, or
  one of the two infinities, written \<^verbatim>\<open>inf\<close> and \<^verbatim>\<open>-inf\<close> in the file. The
  median adds two ages, and the sum of the two opposite infinities is not a number.
\<close>

type_synonym num = "rat option"

datatype fnum = Fin rat | PInf | NInf

record customer =
  c_customer_id :: "string option"
  name :: "string option"
  age :: "fnum option"
  city :: "string option"
  country :: "string option"

record cleaned_customer = customer +
  age_group :: "string option"

section \<open>Cleaning the customers table\<close>

text \<open>
  \<^verbatim>\<open>drop_duplicates(subset=..., keep='first')\<close>: a row is kept unless an earlier row
  has the same key.
\<close>

fun keep_first :: "('a \<Rightarrow> 'k) \<Rightarrow> 'k list \<Rightarrow> 'a list \<Rightarrow> 'a list" where
  "keep_first key seen [] = []"
| "keep_first key seen (r # rs) =
     (if key r \<in> set seen then keep_first key seen rs
      else r # keep_first key (key r # seen) rs)"

definition drop_duplicates :: "('a \<Rightarrow> 'k) \<Rightarrow> 'a list \<Rightarrow> 'a list" where
  "drop_duplicates key rows = keep_first key [] rows"

text \<open>
  \<^verbatim>\<open>replace({'United Kingdom': 'UK', '': np.nan})\<close> on one cell of the country
  column.
\<close>

definition replace_country :: "string option \<Rightarrow> string option" where
  "replace_country c =
     (if c = Some ''United Kingdom'' then Some ''UK''
      else if c = Some '''' then None
      else c)"

text \<open>
  \<^verbatim>\<open>Series.median()\<close>: missing values are skipped and the median of nothing is
  missing. The ages are put in order; the median of an odd number of ages is the middle
  one, that of an even number the mean of the two middle ones. The mean of two finite
  ages is finite, the mean of an infinity and anything but the opposite infinity is that
  infinity, and the mean of the two opposite infinities is missing.
\<close>

fun fle :: "fnum \<Rightarrow> fnum \<Rightarrow> bool" where
  "fle NInf y = True"
| "fle x PInf = True"
| "fle (Fin a) (Fin b) = (a \<le> b)"
| "fle x y = False"

fun insert_sorted :: "fnum \<Rightarrow> fnum list \<Rightarrow> fnum list" where
  "insert_sorted x [] = [x]"
| "insert_sorted x (y # ys) = (if fle x y then x # y # ys else y # insert_sorted x ys)"

definition sort_ages :: "fnum list \<Rightarrow> fnum list" where
  "sort_ages xs = foldr insert_sorted xs []"

fun mean2 :: "fnum \<Rightarrow> fnum \<Rightarrow> fnum option" where
  "mean2 (Fin a) (Fin b) = Some (Fin ((a + b) / 2))"
| "mean2 PInf NInf = None"
| "mean2 NInf PInf = None"
| "mean2 PInf y = Some PInf"
| "mean2 x PInf = Some PInf"
| "mean2 NInf y = Some NInf"
| "mean2 x NInf = Some NInf"

definition median :: "fnum option list \<Rightarrow> fnum option" where
  "median col =
     (let xs = sort_ages (List.map_filter id col); n = length xs
      in if n = 0 then None
         else if odd n then Some (xs ! (n div 2))
         else mean2 (xs ! (n div 2 - 1)) (xs ! (n div 2)))"

text \<open>\<^verbatim>\<open>fillna(value)\<close> on one cell; filling with a missing value fills nothing.\<close>

definition fillna :: "fnum option \<Rightarrow> fnum option \<Rightarrow> fnum option" where
  "fillna v x = (case x of None \<Rightarrow> v | Some a \<Rightarrow> Some a)"

text \<open>
  \<^verbatim>\<open>pd.cut\<close> with bins 0, 20, 30, 40, 50, 100, closed on the left: an age outside
  every bin, an infinite or a missing one, has no group.
\<close>

definition cut_age :: "fnum option \<Rightarrow> string option" where
  "cut_age x =
     (case x of
        Some (Fin a) \<Rightarrow>
          if 0 \<le> a \<and> a < 20 then Some ''<20''
          else if 20 \<le> a \<and> a < 30 then Some ''20-29''
          else if 30 \<le> a \<and> a < 40 then Some ''30-39''
          else if 40 \<le> a \<and> a < 50 then Some ''40-49''
          else if 50 \<le> a \<and> a < 100 then Some ''50+''
          else None
      | _ \<Rightarrow> None)"

text \<open>The statements that rebind \<^verbatim>\<open>customers\<close>, one after the other.\<close>

definition customers_dedup :: "customer list \<Rightarrow> customer list" where
  "customers_dedup customers = drop_duplicates c_customer_id customers"

definition customers_country :: "customer list \<Rightarrow> customer list" where
  "customers_country customers =
     map (\<lambda>c. c\<lparr>country := replace_country (country c)\<rparr>) (customers_dedup customers)"

definition median_age :: "customer list \<Rightarrow> fnum option" where
  "median_age customers = median (map age (customers_country customers))"

definition customers_filled :: "customer list \<Rightarrow> customer list" where
  "customers_filled customers =
     map (\<lambda>c. c\<lparr>age := fillna (median_age customers) (age c)\<rparr>) (customers_country customers)"

definition clean_customers :: "customer list \<Rightarrow> cleaned_customer list" where
  "clean_customers customers =
     map (\<lambda>c. customer.extend c \<lparr>age_group = cut_age (age c)\<rparr>) (customers_filled customers)"




section \<open>Dates\<close>

text \<open>
  \<^verbatim>\<open>datetime.strptime(data_string, format).date()\<close>, for the formats made of the
  directives \<^verbatim>\<open>%Y\<close>, \<^verbatim>\<open>%m\<close>, \<^verbatim>\<open>%d\<close> and the literal characters \<^verbatim>\<open>-\<close> and
  \<^verbatim>\<open>/\<close>. The library turns the format into a regular expression, each directive
  into a group of ordered alternatives:
  \<^verbatim>\<open>%Y\<close> is \<^verbatim>\<open>\d\d\d\d\<close>, \<^verbatim>\<open>%m\<close> is \<^verbatim>\<open>1[0-2]|0[1-9]|[1-9]\<close> and
  \<^verbatim>\<open>%d\<close> is \<^verbatim>\<open>3[0-1]|[1-2]\d|0[1-9]|[1-9]| [1-9]\<close>;
  the expression is matched at the start of the string, alternatives tried in order
  with backtracking, and the match must use up the whole string. A digit is an ASCII
  digit here; the decimal digits of other scripts, which the library also reads, are
  outside this model.
\<close>

datatype date = Date (year: nat) (month: nat) (day: nat)

datatype fmt_item = Year4 | Month | Day | Lit char

fun compile_format :: "string \<Rightarrow> error + fmt_item list" where
  "compile_format [] = Inr []"
| "compile_format [c] =
     (if c = CHR ''-'' \<or> c = CHR ''/'' then Inr [Lit c]
      else if c = CHR ''%'' then Inl ValueError
      else Inl (OtherError ''format outside the model''))"
| "compile_format (c # c' # cs) =
     (if c = CHR ''%'' then
        (if c' = CHR ''Y'' then map_sum id ((#) Year4) (compile_format cs)
         else if c' = CHR ''m'' then map_sum id ((#) Month) (compile_format cs)
         else if c' = CHR ''d'' then map_sum id ((#) Day) (compile_format cs)
         else Inl (OtherError ''format outside the model''))
      else if c = CHR ''-'' \<or> c = CHR ''/'' then map_sum id ((#) (Lit c)) (compile_format (c' # cs))
      else Inl (OtherError ''format outside the model''))"

definition in_range :: "char \<Rightarrow> char \<Rightarrow> char \<Rightarrow> bool" where
  "in_range lo hi c = ((of_char lo :: nat) \<le> of_char c \<and> (of_char c :: nat) \<le> of_char hi)"

definition is_digit :: "char \<Rightarrow> bool" where
  "is_digit c = in_range CHR ''0'' CHR ''9'' c"

definition digit_val :: "char \<Rightarrow> nat" where
  "digit_val c = of_char c - 48"

text \<open>One alternative of a group: the ways it matches at the front, with what is left.\<close>

definition one :: "(char \<Rightarrow> bool) \<Rightarrow> string \<Rightarrow> (nat \<times> string) list" where
  "one p s =
     (case s of
        a # r \<Rightarrow> if p a then [(digit_val a, r)] else []
      | [] \<Rightarrow> [])"

definition two :: "(char \<Rightarrow> bool) \<Rightarrow> (char \<Rightarrow> bool) \<Rightarrow> string \<Rightarrow> (nat \<times> string) list" where
  "two p q s =
     (case s of
        a # b # r \<Rightarrow>
          if p a \<and> q b
          then [((if a = CHR '' '' then 0 else 10 * digit_val a) + digit_val b, r)]
          else []
      | _ \<Rightarrow> [])"

fun match_item :: "fmt_item \<Rightarrow> string \<Rightarrow> (nat \<times> string) list" where
  "match_item (Lit c) s =
     (case s of a # r \<Rightarrow> if a = c then [(0, r)] else [] | [] \<Rightarrow> [])"
| "match_item Year4 s =
     (case s of
        a # b # c # d # r \<Rightarrow>
          if is_digit a \<and> is_digit b \<and> is_digit c \<and> is_digit d
          then [(1000 * digit_val a + 100 * digit_val b + 10 * digit_val c + digit_val d, r)]
          else []
      | _ \<Rightarrow> [])"
| "match_item Month s =
     two (\<lambda>c. c = CHR ''1'') (in_range CHR ''0'' CHR ''2'') s
     @ two (\<lambda>c. c = CHR ''0'') (in_range CHR ''1'' CHR ''9'') s
     @ one (in_range CHR ''1'' CHR ''9'') s"
| "match_item Day s =
     two (\<lambda>c. c = CHR ''3'') (in_range CHR ''0'' CHR ''1'') s
     @ two (in_range CHR ''1'' CHR ''2'') is_digit s
     @ two (\<lambda>c. c = CHR ''0'') (in_range CHR ''1'' CHR ''9'') s
     @ one (in_range CHR ''1'' CHR ''9'') s
     @ two (\<lambda>c. c = CHR '' '') (in_range CHR ''1'' CHR ''9'') s"

text \<open>
  The year, month and day read so far; the library starts from 1900, 1, 1.
\<close>

type_synonym ymd = "nat \<times> nat \<times> nat"

fun store :: "fmt_item \<Rightarrow> nat \<Rightarrow> ymd \<Rightarrow> ymd" where
  "store Year4 v (y, m, d) = (v, m, d)"
| "store Month v (y, m, d) = (y, v, d)"
| "store Day v (y, m, d) = (y, m, v)"
| "store (Lit c) v (y, m, d) = (y, m, d)"

text \<open>
  The first match of the whole expression: the first alternative of the first group
  for which the rest of the expression matches what is left.
\<close>

fun first_some :: "('a \<Rightarrow> 'b option) \<Rightarrow> 'a list \<Rightarrow> 'b option" where
  "first_some f [] = None"
| "first_some f (x # xs) = (case f x of Some y \<Rightarrow> Some y | None \<Rightarrow> first_some f xs)"

fun first_match :: "fmt_item list \<Rightarrow> string \<Rightarrow> ymd \<Rightarrow> (ymd \<times> string) option" where
  "first_match [] s acc = Some (acc, s)"
| "first_match (it # its) s acc =
     first_some (\<lambda>(v, r). first_match its r (store it v acc)) (match_item it s)"

definition is_leap :: "nat \<Rightarrow> bool" where
  "is_leap y = (y mod 4 = 0 \<and> (y mod 100 \<noteq> 0 \<or> y mod 400 = 0))"

definition days_in_month :: "nat \<Rightarrow> nat \<Rightarrow> nat" where
  "days_in_month y m =
     (if m = 2 then (if is_leap y then 29 else 28)
      else if m = 4 \<or> m = 6 \<or> m = 9 \<or> m = 11 then 30
      else 31)"

definition valid_date :: "nat \<Rightarrow> nat \<Rightarrow> nat \<Rightarrow> bool" where
  "valid_date y m d =
     (1 \<le> y \<and> y \<le> 9999 \<and> 1 \<le> m \<and> m \<le> 12 \<and> 1 \<le> d \<and> d \<le> days_in_month y m)"

text \<open>
  A format that names a directive twice is refused when the expression is built, with an
  error that is not a \<^verbatim>\<open>ValueError\<close>. A string that does not match, text left over
  after the match and a day that the calendar does not have are \<^verbatim>\<open>ValueError\<close>s.
\<close>

fun is_directive :: "fmt_item \<Rightarrow> bool" where
  "is_directive (Lit c) = False"
| "is_directive it = True"

definition strptime :: "string \<Rightarrow> string \<Rightarrow> error + date" where
  "strptime data_string format =
     (case compile_format format of
        Inl e \<Rightarrow> Inl e
      | Inr items \<Rightarrow>
          if \<not> distinct (filter is_directive items)
          then Inl (OtherError ''redefinition of group name'')
          else
            (case first_match items data_string (1900, 1, 1) of
               None \<Rightarrow> Inl ValueError
             | Some ((y, m, d), rest) \<Rightarrow>
                 if rest \<noteq> [] then Inl ValueError
                 else if valid_date y m d then Inr (Date y m d)
                 else Inl ValueError))"

text \<open>
  \<^verbatim>\<open>parse_date\<close>: the loop over the four formats. Only \<^verbatim>\<open>ValueError\<close> is caught;
  any other exception would leave the function. The result \<^term>\<open>None\<close> is
  \<^verbatim>\<open>np.nan\<close>.
\<close>

fun try_formats :: "string list \<Rightarrow> string \<Rightarrow> error + date option" where
  "try_formats [] date_str = Inr None"
| "try_formats (fmt # fmts) date_str =
     (case strptime date_str fmt of
        Inr d \<Rightarrow> Inr (Some d)
      | Inl e \<Rightarrow> if e = ValueError then try_formats fmts date_str else Inl e)"

definition formats :: "string list" where
  "formats = [''%Y-%m-%d'', ''%d/%m/%Y'', ''%d-%m-%Y'', ''%Y/%m/%d'']"

definition parse_date :: "string \<Rightarrow> error + date option" where
  "parse_date date_str = try_formats formats date_str"

text \<open>
  A date written out in a format: four digits for the year, two for the month and for
  the day.
\<close>

definition digit_char :: "nat \<Rightarrow> char" where
  "digit_char n = ''0123456789'' ! (n mod 10)"

definition digits2 :: "nat \<Rightarrow> string" where
  "digits2 n = [digit_char (n div 10 mod 10), digit_char (n mod 10)]"

definition digits4 :: "nat \<Rightarrow> string" where
  "digits4 n = [digit_char (n div 1000 mod 10), digit_char (n div 100 mod 10),
                digit_char (n div 10 mod 10), digit_char (n mod 10)]"

fun write_date :: "string \<Rightarrow> date \<Rightarrow> string" where
  "write_date [] dt = []"
| "write_date [c] dt = [c]"
| "write_date (c # c' # cs) dt =
     (if c = CHR ''%'' \<and> c' = CHR ''Y'' then digits4 (year dt) @ write_date cs dt
      else if c = CHR ''%'' \<and> c' = CHR ''m'' then digits2 (month dt) @ write_date cs dt
      else if c = CHR ''%'' \<and> c' = CHR ''d'' then digits2 (day dt) @ write_date cs dt
      else c # write_date (c' # cs) dt)"

section \<open>Cleaning the sales and products tables\<close>

text \<open>
  The sales table, as read and as cleaned: the price is a string before the cast and a
  number after it, the order date a string before parsing and a timestamp after it.
  The column names \<^verbatim>\<open>product_name\<close>, \<^verbatim>\<open>category\<close> and \<^verbatim>\<open>customer_id\<close> also
  occur in the products and customers tables, whose fields carry the prefixes
  \<^verbatim>\<open>p_\<close> and \<^verbatim>\<open>c_\<close>.
\<close>

record ('p, 'd) sale =
  order_id :: "string option"
  product_name :: "string option"
  category :: "string option"
  price :: 'p
  quantity :: num
  order_date :: 'd
  customer_id :: "string option"
  customer_email :: "string option"

record ('p, 'd) cleaned_sale = "('p, 'd) sale" +
  revenue :: num

record product =
  p_product_name :: "string option"
  p_category :: "string option"
  cost_price :: num

text \<open>
  \<^verbatim>\<open>str.replace(pattern, '', regex=True)\<close> with the character class of the
  dollar sign, the comma and the euro sign: every one of them is removed. The euro sign is the three bytes E2 82 AC.
\<close>

fun strip_currency :: "string \<Rightarrow> string" where
  "strip_currency (a # b # c # s) =
     (if a = CHR 0xE2 \<and> b = CHR 0x82 \<and> c = CHR 0xAC then strip_currency s
      else if a = CHR ''$'' \<or> a = comma then strip_currency (b # c # s)
      else a # strip_currency (b # c # s))"
| "strip_currency (a # s) =
     (if a = CHR ''$'' \<or> a = comma then strip_currency s else a # strip_currency s)"
| "strip_currency [] = []"

text \<open>
  \<^verbatim>\<open>float(s)\<close> on the strings made of ASCII digits, a point and a sign, with white
  space around them: an optional sign, digits, an optional point and digits, at least
  one digit in all. Any other string of those characters is a \<^verbatim>\<open>ValueError\<close>.
  The white space that \<^verbatim>\<open>float\<close> skips is that of \<^verbatim>\<open>str.strip()\<close> without the
  four separators U+001C..U+001F. Exponents, \<^verbatim>\<open>inf\<close>, \<^verbatim>\<open>nan\<close>, underscores
  and the digits of other scripts are outside the model and reported as such.
\<close>

definition digits_val :: "string \<Rightarrow> nat" where
  "digits_val s = foldl (\<lambda>n c. 10 * n + digit_val c) 0 s"

definition float_space_seqs :: "string list" where
  "float_space_seqs =
     filter (\<lambda>w. w \<notin> set [[CHR 0x1C], [CHR 0x1D], [CHR 0x1E], [CHR 0x1F]]) space_seqs"

definition float_strip :: "string \<Rightarrow> string" where
  "float_strip s =
     rev (drop_leading (map rev float_space_seqs) (rev (drop_leading float_space_seqs s)))"

definition to_float :: "string \<Rightarrow> error + rat" where
  "to_float s =
     (let t = float_strip s in
      if \<not> list_all (\<lambda>c. is_digit c \<or> c = CHR ''.'' \<or> c = CHR ''+'' \<or> c = CHR ''-'') t
      then Inl (OtherError ''float literal outside the model'')
      else
        let neg = (case t of c # r \<Rightarrow> c = CHR ''-'' | [] \<Rightarrow> False);
            u = (case t of c # r \<Rightarrow> if c = CHR ''-'' \<or> c = CHR ''+'' then r else t | [] \<Rightarrow> t);
            ip = takeWhile is_digit u;
            rest = dropWhile is_digit u;
            fp = (case rest of c # r \<Rightarrow> r | [] \<Rightarrow> [])
        in if (rest = [] \<or> hd rest = CHR ''.'') \<and> list_all is_digit fp \<and> (ip \<noteq> [] \<or> fp \<noteq> [])
           then let v = of_nat (digits_val ip) + of_nat (digits_val fp) / 10 ^ length fp
                in Inr (if neg then - v else v)
           else Inl ValueError)"

text \<open>\<^verbatim>\<open>astype(float)\<close> on one cell: a missing cell stays missing.\<close>

definition astype_float :: "string option \<Rightarrow> error + num" where
  "astype_float c =
     (case c of None \<Rightarrow> Inr None | Some s \<Rightarrow> map_sum id Some (to_float s))"

text \<open>
  A column operation that converts cell after cell stops at the first cell that raises.
\<close>

fun collect :: "('e + 'a) list \<Rightarrow> 'e + 'a list" where
  "collect [] = Inr []"
| "collect (Inl e # xs) = Inl e"
| "collect (Inr a # xs) = map_sum id ((#) a) (collect xs)"

text \<open>Arithmetic on cells: a missing operand gives a missing result.\<close>

definition cell_mul :: "num \<Rightarrow> num \<Rightarrow> num" where
  "cell_mul a b = (case a of None \<Rightarrow> None | Some x \<Rightarrow> (case b of None \<Rightarrow> None | Some y \<Rightarrow> Some (x * y)))"

definition cell_sub :: "num \<Rightarrow> num \<Rightarrow> num" where
  "cell_sub a b = (case a of None \<Rightarrow> None | Some x \<Rightarrow> (case b of None \<Rightarrow> None | Some y \<Rightarrow> Some (x - y)))"

text \<open>\<^verbatim>\<open>str(date_str)\<close> on a cell of the order date column.\<close>

definition str_cell :: "string option \<Rightarrow> string" where
  "str_cell c = (case c of None \<Rightarrow> ''nan'' | Some s \<Rightarrow> s)"

text \<open>\<^verbatim>\<open>.str.strip().replace('', np.nan)\<close> on one cell of the email column.\<close>

definition clean_email :: "string option \<Rightarrow> string option" where
  "clean_email c =
     (case c of None \<Rightarrow> None | Some s \<Rightarrow> if strip s = [] then None else Some (strip s))"

text \<open>
  The statements that clean \<^verbatim>\<open>sales\<close>, column by column in the order of the script:
  product names, prices, order dates, emails, revenue. \<^verbatim>\<open>pd.to_datetime\<close> is a
  parameter, applied cell by cell.
\<close>

definition clean_sales ::
  "(date option \<Rightarrow> error + 'd) \<Rightarrow> (string option, string option) sale list
     \<Rightarrow> error + (num, 'd) cleaned_sale list" where
  "clean_sales to_datetime sales =
     (case collect (map (\<lambda>s. astype_float (map_option strip_currency (price s))) sales) of
        Inl e \<Rightarrow> Inl e
      | Inr prices \<Rightarrow>
     (case collect (map (\<lambda>s. parse_date (str_cell (order_date s))) sales) of
        Inl e \<Rightarrow> Inl e
      | Inr dates \<Rightarrow>
     (case collect (map to_datetime dates) of
        Inl e \<Rightarrow> Inl e
      | Inr stamps \<Rightarrow>
          Inr (map (\<lambda>(s, p, d).
                 \<lparr>order_id = order_id s,
                  product_name = map_option strip (product_name s),
                  category = category s,
                  price = p,
                  quantity = quantity s,
                  order_date = d,
                  customer_id = customer_id s,
                  customer_email = clean_email (customer_email s),
                  revenue = cell_mul p (quantity s)\<rparr>)
               (zip sales (zip prices stamps))))))"

definition clean_products :: "product list \<Rightarrow> product list" where
  "clean_products products =
     map (\<lambda>p. p\<lparr>p_product_name := map_option strip (p_product_name p)\<rparr>) products"

section \<open>Merging\<close>

text \<open>
  \<^verbatim>\<open>pd.merge(left, right, on=..., how='left')\<close>: the left rows in their order, each
  once for every right row with an equal key, and once with nothing on the right when
  no right row has its key. The columns of the right table are read through the
  optional right row: they are missing when there is none.
\<close>

definition left_join ::
  "('a \<Rightarrow> 'k) \<Rightarrow> ('b \<Rightarrow> 'k) \<Rightarrow> 'a list \<Rightarrow> 'b list \<Rightarrow> ('a \<times> 'b option) list" where
  "left_join lkey rkey left right =
     concat (map (\<lambda>l. case filter (\<lambda>r. rkey r = lkey l) right of
                          [] \<Rightarrow> [(l, None)]
                        | ms \<Rightarrow> map (\<lambda>r. (l, Some r)) ms) left)"

record 'd merged =
  m_sale :: "(num, 'd) cleaned_sale"
  m_product :: "product option"
  m_customer :: "cleaned_customer option"
  profit :: num

definition m_cost_price :: "'d merged \<Rightarrow> num" where
  "m_cost_price r = (case m_product r of None \<Rightarrow> None | Some p \<Rightarrow> cost_price p)"

definition sale_key :: "(num, 'd) cleaned_sale \<Rightarrow> string option \<times> string option" where
  "sale_key s = (product_name s, category s)"

definition product_key :: "product \<Rightarrow> string option \<times> string option" where
  "product_key p = (p_product_name p, p_category p)"

text \<open>
  \<^verbatim>\<open>merged_data\<close>, with its \<^verbatim>\<open>profit\<close> column: sales joined to products on the
  product name and category, the result joined to customers on the customer id.
\<close>

definition merged_data ::
  "(num, 'd) cleaned_sale list \<Rightarrow> product list \<Rightarrow> cleaned_customer list \<Rightarrow> 'd merged list" where
  "merged_data sales products customers =
     map (\<lambda>((s, p), c).
            \<lparr>m_sale = s, m_product = p, m_customer = c,
             profit = cell_mul (cell_sub (price s) (case p of None \<Rightarrow> None | Some x \<Rightarrow> cost_price x))
                        (quantity s)\<rparr>)
       (left_join (\<lambda>(s, p). customer_id s) c_customer_id
          (left_join sale_key product_key sales products) customers)"

section \<open>The script\<close>

text \<open>
  What the script does not compute itself is a parameter: reading a file, the table
  parser of the library on the three inputs, the text of an exception, the timestamp
  conversion, the aggregation (the dictionary \<^verbatim>\<open>analysis_results\<close>), the two report
  frames built from it, and the writing of a frame to a file, which gives the text
  written or raises. Each of them may raise; an \<^typ>\<open>error\<close> stands for an exception
  that is an \<^verbatim>\<open>Exception\<close>. Paths are relative to the directory of the script.
\<close>

record ('d, 'a, 'r) world =
  open_read :: "string \<Rightarrow> error + string"
  pd_read_sales :: "string \<Rightarrow> error + (string option, string option) sale list"
  pd_read_products :: "string \<Rightarrow> error + product list"
  pd_read_customers :: "string \<Rightarrow> error + customer list"
  str_of :: "error \<Rightarrow> string"
  pd_to_datetime :: "date option \<Rightarrow> error + 'd"
  analyse :: "'d merged list \<Rightarrow> error + 'a"
  build_reports ::
    "(num, 'd) cleaned_sale list \<Rightarrow> product list \<Rightarrow> cleaned_customer list \<Rightarrow> 'd merged list
       \<Rightarrow> 'a \<Rightarrow> error + 'r \<times> 'r"
  os_makedirs :: "string \<Rightarrow> error option"
  report_to_csv :: "'r \<Rightarrow> string \<Rightarrow> error + string"
  merged_to_csv :: "'d merged list \<Rightarrow> string \<Rightarrow> error + string"

text \<open>
  How a run ends: by \<^verbatim>\<open>exit()\<close> after the load failed, by an exception nobody
  catches, or at the last statement. Each carries what was printed; the last two carry
  the files written, as pairs of path and text.
\<close>

datatype outcome =
    Exited "string list"
  | Raised error "string list" "(string \<times> string) list"
  | Completed "string list" "(string \<times> string) list"

fun files_written :: "outcome \<Rightarrow> (string \<times> string) list" where
  "files_written (Exited out) = []"
| "files_written (Raised e out files) = files"
| "files_written (Completed out files) = files"

text \<open>
  The body of the \<^verbatim>\<open>try\<close> block: the three loads in order, the first exception
  ending it.
\<close>

definition load_sales ::
  "('d, 'a, 'r) world \<Rightarrow> error + (string option, string option) sale list" where
  "load_sales w =
     (case open_read w ''../data/project1_sales_data.csv'' of
        Inl e \<Rightarrow> Inl e
      | Inr content \<Rightarrow> load_csv (pd_read_sales w) content)"

definition load_all ::
  "('d, 'a, 'r) world
     \<Rightarrow> error + (string option, string option) sale list \<times> product list \<times> customer list" where
  "load_all w =
     (case load_sales w of
        Inl e \<Rightarrow> Inl e
      | Inr sales \<Rightarrow>
     (case pd_read_products w ''../data/project1_product_data.csv'' of
        Inl e \<Rightarrow> Inl e
      | Inr products \<Rightarrow>
     (case pd_read_customers w ''../data/project1_customer_data.csv'' of
        Inl e \<Rightarrow> Inl e
      | Inr customers \<Rightarrow> Inr (sales, products, customers))))"

text \<open>The three \<^verbatim>\<open>to_csv\<close> calls and the two last prints.\<close>

definition save_output ::
  "('d, 'a, 'r) world \<Rightarrow> string list \<Rightarrow> 'r \<Rightarrow> 'r \<Rightarrow> 'd merged list \<Rightarrow> outcome" where
  "save_output w out cleaning_report insights merged =
     (case os_makedirs w ''../reports'' of
        Some e \<Rightarrow> Raised e out []
      | None \<Rightarrow>
     (case report_to_csv w cleaning_report ''../reports/data_cleaning_report.csv'' of
        Inl e \<Rightarrow> Raised e out []
      | Inr t1 \<Rightarrow>
     (case report_to_csv w insights ''../reports/business_insights.csv'' of
        Inl e \<Rightarrow> Raised e out [(''../reports/data_cleaning_report.csv'', t1)]
      | Inr t2 \<Rightarrow>
     (case merged_to_csv w merged ''../reports/cleaned_merged_data.csv'' of
        Inl e \<Rightarrow> Raised e out [(''../reports/data_cleaning_report.csv'', t1),
                               (''../reports/business_insights.csv'', t2)]
      | Inr t3 \<Rightarrow>
          Completed (out @ [''\<newline>Analysis complete!'', ''Reports saved to: ../reports''])
            [(''../reports/data_cleaning_report.csv'', t1),
             (''../reports/business_insights.csv'', t2),
             (''../reports/cleaned_merged_data.csv'', t3)]))))"

text \<open>The script from its first statement to its last.\<close>

definition main :: "('d, 'a, 'r) world \<Rightarrow> outcome" where
  "main w =
     (let out0 = [''Loading data files...''] in
      case load_all w of
        Inl e \<Rightarrow> Exited (out0 @ [''Error loading data: '' @ str_of w e])
      | Inr (sales0, products0, customers0) \<Rightarrow>
          let out1 = out0 @ [''Data loaded successfully!'', ''\<newline>Cleaning data...''] in
          (case clean_sales (pd_to_datetime w) sales0 of
             Inl e \<Rightarrow> Raised e out1 []
           | Inr sales \<Rightarrow>
               let products = clean_products products0;
                   customers = clean_customers customers0;
                   out2 = out1 @ [''\<newline>Merging datasets...''];
                   merged = merged_data sales products customers;
                   out3 = out2 @ [''\<newline>Analyzing data...'']
               in (case analyse w merged of
                     Inl e \<Rightarrow> Raised e out3 []
                   | Inr results \<Rightarrow>
                       let out4 = out3 @ [''\<newline>Generating reports...''] in
                       (case build_reports w sales products customers merged results of
                          Inl e \<Rightarrow> Raised e out4 []
                        | Inr (cleaning_report, insights) \<Rightarrow>
                            save_output w out4 cleaning_report insights merged))))"

section \<open>Facts about split, join and the repair of one line\<close>

lemma split_not_Nil: "split sep s \<noteq> []"
  by (induction s) (auto split: list.splits)

lemma join_Cons: "ps \<noteq> [] \<Longrightarrow> join sep (p # ps) = p @ sep # join sep ps"
  by (cases ps) auto

lemma join_split: "join sep (split sep s) = s"
proof (induction s)
  case Nil
  show ?case by simp
next
  case (Cons c cs)
  obtain p ps where sp: "split sep cs = p # ps"
    using split_not_Nil [of sep cs] by (cases "split sep cs") auto
  show ?case
  proof (cases "c = sep")
    case True
    then show ?thesis using Cons sp by (simp add: join_Cons)
  next
    case False
    then show ?thesis using Cons sp by (cases ps) auto
  qed
qed

lemma join_append_join:
  "ys \<noteq> [] \<Longrightarrow> join sep (xs @ [join sep ys]) = join sep (xs @ ys)"
proof (induction xs)
  case Nil
  then show ?case by simp
next
  case (Cons x xs)
  then show ?case by (simp add: join_Cons)
qed

lemma length_split: "length (split sep s) = Suc (count sep s)"
  by (induction s) (auto simp: count_def split: list.splits dest: split_not_Nil [THEN notE])

lemma split_no_sep: "p \<in> set (split sep s) \<Longrightarrow> sep \<notin> set p"
  by (induction s arbitrary: p) (auto split: list.splits if_splits)

lemma fixed_line_id:
  assumes "7 < length (split comma line)"
  shows "fixed_line line = line"
proof -
  have "drop 7 (split comma line) \<noteq> []" using assms by simp
  then have "join comma (take 7 (split comma line) @ [join comma (drop 7 (split comma line))])
      = join comma (take 7 (split comma line) @ drop 7 (split comma line))"
    by (rule join_append_join)
  then show ?thesis by (simp add: fixed_line_def join_split)
qed

lemma drop_leading_keeps:
  assumes "\<forall>w \<in> set ws. c \<notin> set w" and "c \<in> set s"
  shows "c \<in> set (drop_leading ws s)"
  using assms
proof (induction ws s rule: drop_leading.induct)
  case (1 ws s)
  show ?case
  proof (cases "List.find (\<lambda>w. w \<noteq> [] \<and> prefix w s) ws")
    case None
    then show ?thesis using 1 by (simp add: drop_leading.simps [of ws s])
  next
    case (Some w)
    then have "w \<in> set ws" and "prefix w s"
      by (auto simp: find_Some_iff)
    then have "c \<notin> set w" and "s = w @ drop (length w) s"
      using 1 by (auto simp: prefix_def)
    then have "c \<in> set (drop (length w) s)"
      using \<open>c \<in> set s\<close> by (metis Un_iff set_append)
    then have "c \<in> set (drop_leading ws (drop (length w) s))"
      using 1 Some by simp
    then show ?thesis using Some by (simp add: drop_leading.simps [of ws s])
  qed
qed

lemma comma_not_space: "\<forall>w \<in> set space_seqs. comma \<notin> set w"
  by (simp add: space_seqs_def)

lemma strip_keeps_comma:
  assumes "comma \<in> set s"
  shows "comma \<in> set (strip s)"
proof -
  have "comma \<in> set (lstrip s)"
    unfolding lstrip_def using comma_not_space assms by (rule drop_leading_keeps)
  then have r: "comma \<in> set (rev (lstrip s))" by simp
  have "\<forall>w \<in> set (map rev space_seqs). comma \<notin> set w"
    using comma_not_space by simp
  then have "comma \<in> set (drop_leading (map rev space_seqs) (rev (lstrip s)))"
    using r by (rule drop_leading_keeps)
  then show ?thesis by (simp add: strip_def rstrip_def)
qed

lemma not_blank_if_comma: "0 < count comma l \<Longrightarrow> strip l \<noteq> []"
proof -
  assume "0 < count comma l"
  then have "comma \<in> set l"
    by (auto simp: count_def filter_empty_conv)
  then have "comma \<in> set (strip l)" by (rule strip_keeps_comma)
  then show ?thesis by auto
qed

lemma repair_line_filter: "repair_line l = (if accepted l then [l] else [])"
  by (auto simp: repair_line_def accepted_def Let_def fixed_line_id)

lemma concat_map_repair: "concat (map repair_line ls) = filter accepted ls"
  by (induction ls) (simp_all add: repair_line_filter)

lemma good_lines_filter:
  "good_lines content =
     (let ls = split newline (replace ''bob.wilson@,'' ''bob.wilson@company.com'' content)
      in Inr (hd ls # filter accepted (tl ls)))"
  using split_not_Nil [of newline "replace ''bob.wilson@,'' ''bob.wilson@company.com'' content"]
  by (auto simp: good_lines_def Let_def concat_map_repair split: list.splits)

lemma keep_first_keys:
  "distinct (map key (keep_first key seen rs)) \<and>
   set (map key (keep_first key seen rs)) \<inter> set seen = {}"
proof (induction rs arbitrary: seen)
  case Nil
  show ?case by simp
next
  case (Cons r rs)
  show ?case
  proof (cases "key r \<in> set seen")
    case True
    then show ?thesis using Cons [of seen] by simp
  next
    case False
    then show ?thesis using Cons [of "key r # seen"] by auto
  qed
qed

lemma distinct_drop_duplicates: "distinct (map key (drop_duplicates key rows))"
  by (simp add: drop_duplicates_def keep_first_keys)

lemma ids_clean_customers:
  "map c_customer_id (clean_customers cs) = map c_customer_id (customers_dedup cs)"
  by (simp add: clean_customers_def customers_filled_def customers_country_def
      customer.defs comp_def)

lemma distinct_ids_clean_customers: "distinct (map c_customer_id (clean_customers cs))"
  by (simp add: ids_clean_customers customers_dedup_def distinct_drop_duplicates)




lemma length_insert_sorted: "length (insert_sorted x ys) = Suc (length ys)"
  by (induction ys) auto


lemma length_sort_ages: "length (sort_ages xs) = length xs"
  by (induction xs) (simp_all add: sort_ages_def length_insert_sorted)




section \<open>Facts about the date parser\<close>

lemma below_ten: "k < 10 \<Longrightarrow> k \<in> {0, 1, 2, 3, 4, 5, 6, 7, 8, 9::nat}"
  by auto

lemma digit_char_props:
  assumes "n < 10"
  shows "digit_val (digit_char n) = n" and "is_digit (digit_char n)"
  using below_ten [OF assms]
  by (auto simp: digit_char_def digit_val_def is_digit_def in_range_def)

lemma digit_not_sep:
  assumes "is_digit c"
  shows "c \<noteq> CHR ''-''" and "c \<noteq> CHR ''/''"
  using assms by (auto simp: is_digit_def in_range_def)

lemma digits4_value:
  assumes "y \<le> 9999"
  shows "1000 * (y div 1000 mod 10) + 100 * (y div 100 mod 10) + 10 * (y div 10 mod 10)
           + y mod 10 = (y::nat)"
    and "y div 1000 mod 10 = y div 1000" and "y div 1000 < 10"
proof -
  have 1: "10 * (y div 10) + y mod 10 = y" by simp
  have 2: "10 * (y div 10 div 10) + y div 10 mod 10 = y div 10" by simp
  have 3: "10 * (y div 10 div 10 div 10) + y div 10 div 10 mod 10 = y div 10 div 10" by simp
  have a: "y div 100 = y div 10 div 10" by (simp add: div_mult2_eq [symmetric])
  have b: "y div 1000 = y div 10 div 10 div 10" by (simp add: div_mult2_eq [symmetric])
  have "y < 10 * 1000" using assms by simp
  then show t: "y div 1000 < 10" by (rule less_mult_imp_div_less)
  then have c: "y div 1000 mod 10 = y div 1000" by simp
  show "1000 * (y div 1000 mod 10) + 100 * (y div 100 mod 10) + 10 * (y div 10 mod 10)
           + y mod 10 = y"
    unfolding c unfolding a b using 1 2 3 by linarith
  show "y div 1000 mod 10 = y div 1000" by (rule c)
qed

lemma year_ok:
  assumes "y \<le> 9999"
  shows "match_item Year4 (digits4 y @ r) = [(y, r)]"
proof -
  note v = digits4_value [OF assms]
  have "1000 * digit_val (digit_char (y div 1000)) + 100 * digit_val (digit_char (y div 100 mod 10))
      + 10 * digit_val (digit_char (y div 10 mod 10)) + digit_val (digit_char (y mod 10)) = y"
    using v(1) by (simp add: digit_char_props v(2) v(3))
  moreover have "is_digit (digit_char (y div 1000))" "is_digit (digit_char (y div 100 mod 10))"
    "is_digit (digit_char (y div 10 mod 10))" "is_digit (digit_char (y mod 10))"
    by (simp_all add: digit_char_props v(3))
  ultimately show ?thesis
    by (simp add: digits4_def v(2))
qed

lemma month_cases:
  "1 \<le> m \<Longrightarrow> m \<le> 12 \<Longrightarrow> m = 1 \<or> m = 2 \<or> m = 3 \<or> m = 4 \<or> m = 5 \<or> m = 6 \<or> m = 7
     \<or> m = 8 \<or> m = 9 \<or> m = 10 \<or> m = 11 \<or> m = (12::nat)"
  by arith

lemma month_hd:
  assumes "1 \<le> m" and "m \<le> 12"
  shows "\<exists>t. match_item Month (digits2 m @ r) = (m, r) # t"
  using month_cases [OF assms]
  by (elim disjE)
    (simp_all add: digits2_def digit_char_def two_def one_def in_range_def digit_val_def)

lemma day_cases_low:
  "1 \<le> d \<Longrightarrow> d \<le> 10 \<Longrightarrow> d = 1 \<or> d = 2 \<or> d = 3 \<or> d = 4 \<or> d = 5 \<or> d = 6 \<or> d = 7
     \<or> d = 8 \<or> d = 9 \<or> d = (10::nat)"
  by arith

lemma day_cases_mid:
  "11 \<le> d \<Longrightarrow> d \<le> 20 \<Longrightarrow> d = 11 \<or> d = 12 \<or> d = 13 \<or> d = 14 \<or> d = 15 \<or> d = 16
     \<or> d = 17 \<or> d = 18 \<or> d = 19 \<or> d = (20::nat)"
  by arith

lemma day_cases_high:
  "21 \<le> d \<Longrightarrow> d \<le> 31 \<Longrightarrow> d = 21 \<or> d = 22 \<or> d = 23 \<or> d = 24 \<or> d = 25 \<or> d = 26
     \<or> d = 27 \<or> d = 28 \<or> d = 29 \<or> d = 30 \<or> d = (31::nat)"
  by arith

lemma day_hd:
  assumes "1 \<le> d" and "d \<le> 31"
  shows "\<exists>t. match_item Day (digits2 d @ r) = (d, r) # t"
proof -
  consider "1 \<le> d \<and> d \<le> 10" | "11 \<le> d \<and> d \<le> 20" | "21 \<le> d \<and> d \<le> 31"
    using assms by linarith
  then show ?thesis
  proof cases
    case 1
    then have "d = 1 \<or> d = 2 \<or> d = 3 \<or> d = 4 \<or> d = 5 \<or> d = 6 \<or> d = 7
        \<or> d = 8 \<or> d = 9 \<or> d = 10"
      by (intro day_cases_low) simp_all
    then show ?thesis
      by (elim disjE)
        (simp_all add: digits2_def digit_char_def two_def one_def in_range_def digit_val_def
          is_digit_def)
  next
    case 2
    then have "d = 11 \<or> d = 12 \<or> d = 13 \<or> d = 14 \<or> d = 15 \<or> d = 16
        \<or> d = 17 \<or> d = 18 \<or> d = 19 \<or> d = 20"
      by (intro day_cases_mid) simp_all
    then show ?thesis
      by (elim disjE)
        (simp_all add: digits2_def digit_char_def two_def one_def in_range_def digit_val_def
          is_digit_def)
  next
    case 3
    then have "d = 21 \<or> d = 22 \<or> d = 23 \<or> d = 24 \<or> d = 25 \<or> d = 26
        \<or> d = 27 \<or> d = 28 \<or> d = 29 \<or> d = 30 \<or> d = 31"
      by (intro day_cases_high) simp_all
    then show ?thesis
      by (elim disjE)
        (simp_all add: digits2_def digit_char_def two_def one_def in_range_def digit_val_def
          is_digit_def)
  qed
qed

lemma first_match_hd:
  assumes "match_item it s = (v, r) # t"
    and "first_match its r (store it v acc) = Some z"
  shows "first_match (it # its) s acc = Some z"
  using assms by simp

lemma first_some_None: "(\<And>x. x \<in> set xs \<Longrightarrow> f x = None) \<Longrightarrow> first_some f xs = None"
  by (induction xs) auto

lemma one_rest: "(v, r) \<in> set (one p (a # s)) \<Longrightarrow> r = s"
  by (auto simp: one_def split: if_splits)

lemma two_rest: "(v, r) \<in> set (two p q (a # b # s)) \<Longrightarrow> r = s"
  by (auto simp: two_def split: if_splits)

lemma day_rest:
  assumes "(v, r) \<in> set (match_item Day (a # b # s))"
  shows "r = b # s \<or> r = s"
  using assms by (auto dest: one_rest two_rest)

lemma day_then_lit_fails:
  assumes "b \<noteq> c" and "x \<noteq> c"
  shows "first_match (Day # Lit c # its) (a # b # x # s) acc = None"
proof -
  have "first_match (Lit c # its) r (store Day v acc) = None"
    if "(v, r) \<in> set (match_item Day (a # b # x # s))" for v r
  proof -
    from that have "r = b # x # s \<or> r = x # s" by (rule day_rest)
    then show ?thesis using assms by auto
  qed
  then have "first_some (\<lambda>(v, r). first_match (Lit c # its) r (store Day v acc))
      (match_item Day (a # b # x # s)) = None"
    by (intro first_some_None) auto
  then show ?thesis by simp
qed


lemma year_fails: "\<not> is_digit c \<Longrightarrow> match_item Year4 (a # b # c # s) = []"
  by (cases s) simp_all

lemma fm_year:
  assumes "y \<le> 9999" and "first_match its r (y, m0, d0) = Some z"
  shows "first_match (Year4 # its) (digits4 y @ r) (y0, m0, d0) = Some z"
  unfolding first_match.simps year_ok [OF assms(1)] using assms(2) by simp

lemma fm_month:
  assumes "1 \<le> m" and "m \<le> 12" and "first_match its r (y0, m, d0) = Some z"
  shows "first_match (Month # its) (digits2 m @ r) (y0, m0, d0) = Some z"
proof -
  obtain t where t: "match_item Month (digits2 m @ r) = (m, r) # t"
    using month_hd [OF assms(1,2)] by blast
  show ?thesis unfolding first_match.simps t using assms(3) by simp
qed

lemma fm_day:
  assumes "1 \<le> d" and "d \<le> 31" and "first_match its r (y0, m0, d) = Some z"
  shows "first_match (Day # its) (digits2 d @ r) (y0, m0, d0) = Some z"
proof -
  obtain t where t: "match_item Day (digits2 d @ r) = (d, r) # t"
    using day_hd [OF assms(1,2)] by blast
  show ?thesis unfolding first_match.simps t using assms(3) by simp
qed

lemma fm_lit:
  assumes "first_match its r acc = Some z"
  shows "first_match (Lit c # its) (c # r) acc = Some z"
  using assms by (cases acc) simp

lemma compile_formats:
  "compile_format ''%Y-%m-%d'' = Inr [Year4, Lit CHR ''-'', Month, Lit CHR ''-'', Day]"
  "compile_format ''%d/%m/%Y'' = Inr [Day, Lit CHR ''/'', Month, Lit CHR ''/'', Year4]"
  "compile_format ''%d-%m-%Y'' = Inr [Day, Lit CHR ''-'', Month, Lit CHR ''-'', Year4]"
  "compile_format ''%Y/%m/%d'' = Inr [Year4, Lit CHR ''/'', Month, Lit CHR ''/'', Day]"
  by simp_all

lemma strptime_ok:
  assumes "compile_format f = Inr items" and "distinct (filter is_directive items)"
    and "first_match items s (1900, 1, 1) = Some ((y, m, d), [])" and "valid_date y m d"
  shows "strptime s f = Inr (Date y m d)"
  using assms by (simp add: strptime_def)

lemma strptime_no_match:
  assumes "compile_format f = Inr items" and "first_match items s (1900, 1, 1) = None"
    and "distinct (filter is_directive items)"
  shows "strptime s f = Inl ValueError"
  using assms by (simp add: strptime_def)

lemma strptime_only_ValueError:
  assumes "compile_format f = Inr items" and "distinct (filter is_directive items)"
    and "strptime s f = Inl e"
  shows "e = ValueError"
  using assms by (auto simp: strptime_def split: option.splits if_splits prod.splits)

lemma strptime_formats_error:
  assumes "strptime s f = Inl e"
    and "f = ''%Y-%m-%d'' \<or> f = ''%d/%m/%Y'' \<or> f = ''%d-%m-%Y'' \<or> f = ''%Y/%m/%d''"
  shows "e = ValueError"
proof -
  obtain items where "compile_format f = Inr items" and "distinct (filter is_directive items)"
    using assms(2) compile_formats by auto
  then show ?thesis using assms(1) by (rule strptime_only_ValueError)
qed

lemma parse_date_cases:
  "parse_date s =
     (case strptime s ''%Y-%m-%d'' of Inr dt \<Rightarrow> Inr (Some dt) | Inl e1 \<Rightarrow>
     (case strptime s ''%d/%m/%Y'' of Inr dt \<Rightarrow> Inr (Some dt) | Inl e2 \<Rightarrow>
     (case strptime s ''%d-%m-%Y'' of Inr dt \<Rightarrow> Inr (Some dt) | Inl e3 \<Rightarrow>
     (case strptime s ''%Y/%m/%d'' of Inr dt \<Rightarrow> Inr (Some dt) | Inl e4 \<Rightarrow> Inr None))))"
proof -
  have e: "strptime s f = Inl e \<Longrightarrow>
      f = ''%Y-%m-%d'' \<or> f = ''%d/%m/%Y'' \<or> f = ''%d-%m-%Y'' \<or> f = ''%Y/%m/%d'' \<Longrightarrow>
      e = ValueError" for f e
    by (rule strptime_formats_error)
  show ?thesis
    unfolding parse_date_def formats_def try_formats.simps
    by (auto split: sum.splits dest!: e)
qed

lemma valid_date_bounds:
  assumes "valid_date y m d"
  shows "y \<le> 9999" "1 \<le> m" "m \<le> 12" "1 \<le> d" "d \<le> 31"
  using assms by (auto simp: valid_date_def days_in_month_def split: if_splits)

lemma digits2_shape: "\<exists>a b. digits2 n = [a, b] \<and> is_digit a \<and> is_digit b"
  by (simp add: digits2_def digit_char_props)

lemma digits4_shape:
  "\<exists>a b c d. digits4 n = [a, b, c, d] \<and> is_digit a \<and> is_digit b \<and> is_digit c \<and> is_digit d"
  by (simp add: digits4_def digit_char_props)

lemma fm_day_last:
  assumes "1 \<le> d" and "d \<le> 31"
  shows "first_match [Day] (digits2 d) (y0, m0, d0) = Some ((y0, m0, d), [])"
  using fm_day [OF assms, of "[]" "[]" y0 m0 "((y0, m0, d), [])" d0] by simp

lemma fm_year_last:
  assumes "y \<le> 9999"
  shows "first_match [Year4] (digits4 y) (y0, m0, d0) = Some ((y, m0, d0), [])"
  using fm_year [OF assms, of "[]" "[]" m0 d0 "((y, m0, d0), [])" y0] by simp

lemma match_ymd:
  assumes "valid_date y m d"
  shows "first_match [Year4, Lit c, Month, Lit c, Day]
           (digits4 y @ c # digits2 m @ c # digits2 d) (1900, 1, 1) = Some ((y, m, d), [])"
proof -
  note b = valid_date_bounds [OF assms]
  have "first_match [Day] (digits2 d) (y, m, 1) = Some ((y, m, d), [])"
    using b by (intro fm_day_last)
  then have "first_match [Lit c, Day] (c # digits2 d) (y, m, 1) = Some ((y, m, d), [])"
    by (rule fm_lit)
  then have "first_match [Month, Lit c, Day] (digits2 m @ c # digits2 d) (y, 1, 1)
      = Some ((y, m, d), [])"
    using b by (intro fm_month)
  then have "first_match [Lit c, Month, Lit c, Day] (c # digits2 m @ c # digits2 d) (y, 1, 1)
      = Some ((y, m, d), [])"
    by (rule fm_lit)
  then show ?thesis
    using b by (intro fm_year)
qed

lemma match_dmy:
  assumes "valid_date y m d"
  shows "first_match [Day, Lit c, Month, Lit c, Year4]
           (digits2 d @ c # digits2 m @ c # digits4 y) (1900, 1, 1) = Some ((y, m, d), [])"
proof -
  note b = valid_date_bounds [OF assms]
  have "first_match [Year4] (digits4 y) (1900, m, d) = Some ((y, m, d), [])"
    using b by (intro fm_year_last)
  then have "first_match [Lit c, Year4] (c # digits4 y) (1900, m, d) = Some ((y, m, d), [])"
    by (rule fm_lit)
  then have "first_match [Month, Lit c, Year4] (digits2 m @ c # digits4 y) (1900, 1, d)
      = Some ((y, m, d), [])"
    using b by (intro fm_month)
  then have "first_match [Lit c, Month, Lit c, Year4] (c # digits2 m @ c # digits4 y) (1900, 1, d)
      = Some ((y, m, d), [])"
    by (rule fm_lit)
  then show ?thesis
    using b by (intro fm_day)
qed

lemma year_first_fails_short:
  assumes "\<not> is_digit c"
  shows "first_match (Year4 # its) (digits2 d @ c # r) acc = None"
proof -
  obtain a b where s: "digits2 d = [a, b]" using digits2_shape by blast
  have "match_item Year4 (a # b # c # r) = []"
    using assms by (rule year_fails)
  then have "match_item Year4 (digits2 d @ c # r) = []"
    by (simp only: s append.simps)
  then show ?thesis unfolding first_match.simps by simp
qed

lemma year_then_lit_fails:
  assumes "y \<le> 9999" and "c \<noteq> c'"
  shows "first_match (Year4 # Lit c # its) (digits4 y @ c' # r) acc = None"
  unfolding first_match.simps year_ok [OF assms(1)] using assms(2) by simp

lemma day_first_fails_on_dmy:
  assumes "c \<noteq> c'" and "c = CHR ''-'' \<or> c = CHR ''/''"
  shows "first_match (Day # Lit c # its) (digits2 d @ c' # r) acc = None"
proof -
  obtain a b where s: "digits2 d = [a, b]" and "is_digit b" using digits2_shape by blast
  then have "b \<noteq> c" using assms(2) digit_not_sep by blast
  then have "first_match (Day # Lit c # its) (a # b # c' # r) acc = None"
    using assms(1) by (intro day_then_lit_fails) auto
  then show ?thesis by (simp add: s)
qed

lemma day_first_fails_on_ymd:
  assumes "c = CHR ''-'' \<or> c = CHR ''/''"
  shows "first_match (Day # Lit c # its) (digits4 y @ r) acc = None"
proof -
  obtain a b x z where s: "digits4 y = [a, b, x, z]" and "is_digit b" and "is_digit x"
    using digits4_shape by blast
  then have "b \<noteq> c" and "x \<noteq> c" using assms digit_not_sep by blast+
  then have "first_match (Day # Lit c # its) (a # b # x # z # r) acc = None"
    by (intro day_then_lit_fails)
  then show ?thesis by (simp add: s)
qed

lemma not_digit_sep: "\<not> is_digit CHR ''-''" "\<not> is_digit CHR ''/''"
  by (simp_all add: is_digit_def in_range_def)

lemma parse_iso:
  assumes "valid_date y m d"
  shows "parse_date (digits4 y @ CHR ''-'' # digits2 m @ CHR ''-'' # digits2 d)
           = Inr (Some (Date y m d))"
proof -
  have "strptime (digits4 y @ CHR ''-'' # digits2 m @ CHR ''-'' # digits2 d) ''%Y-%m-%d''
      = Inr (Date y m d)"
    using compile_formats(1) _ match_ymd [OF assms] assms by (rule strptime_ok) simp
  then show ?thesis by (simp add: parse_date_cases)
qed

lemma parse_dmy_slash:
  assumes "valid_date y m d"
  shows "parse_date (digits2 d @ CHR ''/'' # digits2 m @ CHR ''/'' # digits4 y)
           = Inr (Some (Date y m d))"
proof -
  let ?s = "digits2 d @ CHR ''/'' # digits2 m @ CHR ''/'' # digits4 y"
  have "first_match [Year4, Lit CHR ''-'', Month, Lit CHR ''-'', Day] ?s (1900, 1, 1) = None"
    by (intro year_first_fails_short not_digit_sep)
  with compile_formats(1) have 1: "strptime ?s ''%Y-%m-%d'' = Inl ValueError"
    by (rule strptime_no_match) simp
  have 2: "strptime ?s ''%d/%m/%Y'' = Inr (Date y m d)"
    using compile_formats(2) _ match_dmy [OF assms] assms by (rule strptime_ok) simp
  show ?thesis by (simp add: parse_date_cases 1 2)
qed

lemma parse_dmy_dash:
  assumes "valid_date y m d"
  shows "parse_date (digits2 d @ CHR ''-'' # digits2 m @ CHR ''-'' # digits4 y)
           = Inr (Some (Date y m d))"
proof -
  let ?s = "digits2 d @ CHR ''-'' # digits2 m @ CHR ''-'' # digits4 y"
  have "first_match [Year4, Lit CHR ''-'', Month, Lit CHR ''-'', Day] ?s (1900, 1, 1) = None"
    by (intro year_first_fails_short not_digit_sep)
  with compile_formats(1) have 1: "strptime ?s ''%Y-%m-%d'' = Inl ValueError"
    by (rule strptime_no_match) simp
  have "first_match [Day, Lit CHR ''/'', Month, Lit CHR ''/'', Year4] ?s (1900, 1, 1) = None"
    by (intro day_first_fails_on_dmy) simp_all
  with compile_formats(2) have 2: "strptime ?s ''%d/%m/%Y'' = Inl ValueError"
    by (rule strptime_no_match) simp
  have 3: "strptime ?s ''%d-%m-%Y'' = Inr (Date y m d)"
    using compile_formats(3) _ match_dmy [OF assms] assms by (rule strptime_ok) simp
  show ?thesis by (simp add: parse_date_cases 1 2 3)
qed

lemma parse_ymd_slash:
  assumes "valid_date y m d"
  shows "parse_date (digits4 y @ CHR ''/'' # digits2 m @ CHR ''/'' # digits2 d)
           = Inr (Some (Date y m d))"
proof -
  let ?s = "digits4 y @ CHR ''/'' # digits2 m @ CHR ''/'' # digits2 d"
  note b = valid_date_bounds [OF assms]
  have "first_match [Year4, Lit CHR ''-'', Month, Lit CHR ''-'', Day] ?s (1900, 1, 1) = None"
    using b(1) by (intro year_then_lit_fails) simp_all
  with compile_formats(1) have 1: "strptime ?s ''%Y-%m-%d'' = Inl ValueError"
    by (rule strptime_no_match) simp
  have "first_match [Day, Lit CHR ''/'', Month, Lit CHR ''/'', Year4] ?s (1900, 1, 1) = None"
    by (intro day_first_fails_on_ymd) simp
  with compile_formats(2) have 2: "strptime ?s ''%d/%m/%Y'' = Inl ValueError"
    by (rule strptime_no_match) simp
  have "first_match [Day, Lit CHR ''-'', Month, Lit CHR ''-'', Year4] ?s (1900, 1, 1) = None"
    by (intro day_first_fails_on_ymd) simp
  with compile_formats(3) have 3: "strptime ?s ''%d-%m-%Y'' = Inl ValueError"
    by (rule strptime_no_match) simp
  have 4: "strptime ?s ''%Y/%m/%d'' = Inr (Date y m d)"
    using compile_formats(4) _ match_ymd [OF assms] assms by (rule strptime_ok) simp
  show ?thesis by (simp add: parse_date_cases 1 2 3 4)
qed

lemma write_date_formats:
  "write_date ''%Y-%m-%d'' (Date y m d) = digits4 y @ CHR ''-'' # digits2 m @ CHR ''-'' # digits2 d"
  "write_date ''%d/%m/%Y'' (Date y m d) = digits2 d @ CHR ''/'' # digits2 m @ CHR ''/'' # digits4 y"
  "write_date ''%d-%m-%Y'' (Date y m d) = digits2 d @ CHR ''-'' # digits2 m @ CHR ''-'' # digits4 y"
  "write_date ''%Y/%m/%d'' (Date y m d) = digits4 y @ CHR ''/'' # digits2 m @ CHR ''/'' # digits2 d"
  by simp_all

section \<open>Facts about the merge and the sales columns\<close>

lemma filter_unique_key:
  "distinct (map rkey right) \<Longrightarrow>
   filter (\<lambda>r. rkey r = k) right
     = (case List.find (\<lambda>r. rkey r = k) right of None \<Rightarrow> [] | Some r \<Rightarrow> [r])"
proof (induction right)
  case Nil
  show ?case by simp
next
  case (Cons r rs)
  show ?case
  proof (cases "rkey r = k")
    case True
    have "rkey r \<notin> set (map rkey rs)" using Cons.prems by simp
    then have "\<forall>x \<in> set rs. rkey x \<noteq> k" unfolding True [symmetric] by (metis image_eqI set_map)
    then have "filter (\<lambda>r. rkey r = k) rs = []" by (simp add: filter_empty_conv)
    then show ?thesis using True by simp
  next
    case False
    then show ?thesis using Cons by simp
  qed
qed

lemma left_join_unique:
  assumes "distinct (map rkey right)"
  shows "left_join lkey rkey left right
           = map (\<lambda>l. (l, List.find (\<lambda>r. rkey r = lkey l) right)) left"
proof -
  have "(case filter (\<lambda>r. rkey r = lkey l) right of
           [] \<Rightarrow> [(l, None)] | ms \<Rightarrow> map (\<lambda>r. (l, Some r)) ms)
        = [(l, List.find (\<lambda>r. rkey r = lkey l) right)]" for l
    unfolding filter_unique_key [OF assms]
    by (cases "List.find (\<lambda>r. rkey r = lkey l) right") simp_all
  then show ?thesis
    unfolding left_join_def by (induction left) simp_all
qed

lemma merged_data_unique:
  assumes "distinct (map product_key products)" and "distinct (map c_customer_id customers)"
  shows "merged_data sales products customers
    = map (\<lambda>s. \<lparr>m_sale = s,
                 m_product = List.find (\<lambda>p. product_key p = sale_key s) products,
                 m_customer = List.find (\<lambda>c. c_customer_id c = customer_id s) customers,
                 profit = cell_mul (cell_sub (price s)
                            (case List.find (\<lambda>p. product_key p = sale_key s) products of
                               None \<Rightarrow> None | Some x \<Rightarrow> cost_price x))
                            (quantity s)\<rparr>) sales"
  unfolding merged_data_def left_join_unique [OF assms(1)] left_join_unique [OF assms(2)]
  by (simp add: comp_def)

lemma left_join_fst:
  assumes "x \<in> set (left_join lkey rkey left right)"
  shows "fst x \<in> set left"
proof -
  obtain l where l: "l \<in> set left"
    and x: "x \<in> set (case filter (\<lambda>r. rkey r = lkey l) right of
                       [] \<Rightarrow> [(l, None)] | ms \<Rightarrow> map (\<lambda>r. (l, Some r)) ms)"
    using assms by (auto simp: left_join_def)
  from x have "fst x = l"
    by (cases "filter (\<lambda>r. rkey r = lkey l) right") auto
  with l show ?thesis by simp
qed

lemma merged_data_rows:
  assumes "r \<in> set (merged_data sales products customers)"
  shows "m_sale r \<in> set sales"
    and "profit r = cell_mul (cell_sub (price (m_sale r)) (m_cost_price r)) (quantity (m_sale r))"
proof -
  obtain s p c where x: "((s, p), c) \<in> set (left_join (\<lambda>(s, p). customer_id s) c_customer_id
          (left_join sale_key product_key sales products) customers)"
    and r: "r = \<lparr>m_sale = s, m_product = p, m_customer = c,
             profit = cell_mul (cell_sub (price s) (case p of None \<Rightarrow> None | Some x \<Rightarrow> cost_price x))
                        (quantity s)\<rparr>"
    using assms by (auto simp: merged_data_def)
  from x have "(s, p) \<in> set (left_join sale_key product_key sales products)"
    using left_join_fst by fastforce
  then have "s \<in> set sales" using left_join_fst by fastforce
  then show "m_sale r \<in> set sales" by (simp add: r)
  show "profit r = cell_mul (cell_sub (price (m_sale r)) (m_cost_price r)) (quantity (m_sale r))"
    by (simp add: r m_cost_price_def)
qed

lemma collect_Inr:
  "collect xs = Inr ys \<Longrightarrow> length ys = length xs \<and> (\<forall>i < length xs. xs ! i = Inr (ys ! i))"
proof (induction xs arbitrary: ys rule: collect.induct)
  case 1
  then show ?case by simp
next
  case (2 e xs)
  then show ?case by simp
next
  case (3 a xs)
  then obtain as where "collect xs = Inr as" and "ys = a # as"
    by (cases "collect xs") auto
  then show ?case using "3.IH" [of as] by (auto simp: nth_Cons split: nat.splits)
qed

lemma clean_sales_rows:
  assumes "clean_sales to_datetime raw = Inr sales" and "s \<in> set sales"
  shows "revenue s = cell_mul (price s) (quantity s)"
  using assms
  by (auto simp: clean_sales_def split: sum.splits dest!: set_zip_leftD)

lemma clean_sales_prices:
  assumes "clean_sales to_datetime raw = Inr sales"
  shows "length sales = length raw"
    and "map (\<lambda>s. astype_float (map_option strip_currency (price s))) raw
           = map (\<lambda>s. Inr (price s)) sales"
proof -
  obtain prices dates stamps where
    p: "collect (map (\<lambda>s. astype_float (map_option strip_currency (price s))) raw) = Inr prices"
    and d: "collect (map (\<lambda>s. parse_date (str_cell (order_date s))) raw) = Inr dates"
    and t: "collect (map to_datetime dates) = Inr stamps"
    and s: "sales = map (\<lambda>(s, p, d).
                 \<lparr>order_id = order_id s,
                  product_name = map_option strip (product_name s),
                  category = category s,
                  price = p,
                  quantity = quantity s,
                  order_date = d,
                  customer_id = customer_id s,
                  customer_email = clean_email (customer_email s),
                  revenue = cell_mul p (quantity s)\<rparr>)
               (zip raw (zip prices stamps))"
    using assms by (auto simp: clean_sales_def split: sum.splits)
  note lp = collect_Inr [OF p] and ld = collect_Inr [OF d] and lt = collect_Inr [OF t]
  have l: "length prices = length raw" "length stamps = length raw"
    using lp ld lt by simp_all
  then show "length sales = length raw" by (simp add: s)
  show "map (\<lambda>s. astype_float (map_option strip_currency (price s))) raw
           = map (\<lambda>s. Inr (price s)) sales"
  proof (rule nth_equalityI)
    show "length (map (\<lambda>s. astype_float (map_option strip_currency (price s))) raw)
        = length (map (\<lambda>s. Inr (price s)) sales)"
      using l by (simp add: s)
  next
    fix i
    assume "i < length (map (\<lambda>s. astype_float (map_option strip_currency (price s))) raw)"
    then have i: "i < length raw" by simp
    then have "map (\<lambda>s. astype_float (map_option strip_currency (price s))) raw ! i = Inr (prices ! i)"
      using lp by simp
    moreover have "price (sales ! i) = prices ! i"
      using i l by (simp add: s)
    ultimately show "map (\<lambda>s. astype_float (map_option strip_currency (price s))) raw ! i
        = map (\<lambda>s. Inr (price s)) sales ! i"
      using i l by (simp add: s)
  qed
qed

section \<open>Facts about the load block\<close>

lemma load_all_Inl_iff:
  "load_all w = Inl e \<longleftrightarrow>
     (load_sales w = Inl e
      \<or> (\<exists>s. load_sales w = Inr s
            \<and> (pd_read_products w ''../data/project1_product_data.csv'' = Inl e
               \<or> (\<exists>p. pd_read_products w ''../data/project1_product_data.csv'' = Inr p
                     \<and> pd_read_customers w ''../data/project1_customer_data.csv'' = Inl e))))"
  by (auto simp: load_all_def split: sum.splits)

lemma load_sales_Inl_iff:
  "load_sales w = Inl e \<longleftrightarrow>
     (open_read w ''../data/project1_sales_data.csv'' = Inl e
      \<or> (\<exists>content. open_read w ''../data/project1_sales_data.csv'' = Inr content
            \<and> load_csv (pd_read_sales w) content = Inl e))"
  by (auto simp: load_sales_def split: sum.splits)

section \<open>The claims\<close>

text \<open>
  C9. A data line that splits into exactly nine comma-separated parts is left unchanged,
  character for character, by the repair: joining the first seven parts with the
  comma-join of the last two gives the line back, nothing is quoted or escaped, and the
  loop appends the line itself.
\<close>

theorem repair_nine_parts_identity:
  assumes "length (split comma line) = 9"
  shows "join comma (take 7 (split comma line) @ [join comma (drop 7 (split comma line))]) = line
       \<and> fixed_line line = line
       \<and> repair_line line = [line]"
proof -
  have f: "fixed_line line = line" using assms by (simp add: fixed_line_id)
  have "count comma line = 8" using assms by (simp add: length_split)
  then have "strip line \<noteq> []" "count comma line \<noteq> 7"
    by (simp_all add: not_blank_if_comma)
  then have "repair_line line = [line]"
    using assms f by (simp add: repair_line_def)
  with f show ?thesis by (simp add: fixed_line_def Let_def)
qed

theorem repair_nine_parts_identity_witness:
  "length (split comma ''7,Desk,Office,$10.00,2,2024-01-05,C7,Leeds,UK'') = 9
   \<and> fixed_line ''7,Desk,Office,$10.00,2,2024-01-05,C7,Leeds,UK''
       = ''7,Desk,Office,$10.00,2,2024-01-05,C7,Leeds,UK''
   \<and> repair_line ''7,Desk,Office,$10.00,2,2024-01-05,C7,Leeds,UK''
       = [''7,Desk,Office,$10.00,2,2024-01-05,C7,Leeds,UK'']"
proof -
  have h: "length (split comma ''7,Desk,Office,$10.00,2,2024-01-05,C7,Leeds,UK'') = 9"
    by simp
  show ?thesis
    by (rule conjI [OF h conjunct2 [OF repair_nine_parts_identity [OF h]]])
qed

text \<open>
  C1, measured on the code. For a line of nine parts the list built in memory does end
  with the trailing field put back together (it contains a comma), but the repaired line
  is the original line: it still has nine comma-separated fields, and its last field
  has no comma, so it is not the reassembled trailing field.
\<close>

theorem repaired_line_last_field:
  assumes "length (split comma line) = 9"
  shows "last (take 7 (split comma line) @ [join comma (drop 7 (split comma line))])
           = join comma (drop 7 (split comma line))
       \<and> comma \<in> set (join comma (drop 7 (split comma line)))
       \<and> length (split comma (fixed_line line)) = 9
       \<and> comma \<notin> set (last (split comma (fixed_line line)))
       \<and> last (split comma (fixed_line line)) \<noteq> join comma (drop 7 (split comma line))"
proof -
  let ?ps = "split comma line"
  have "length (drop 7 ?ps) = Suc (Suc 0)" using assms by simp
  then obtain a b where d: "drop 7 ?ps = [a, b]"
    unfolding length_Suc_conv by auto
  have c: "comma \<in> set (join comma (drop 7 ?ps))" by (simp add: d)
  have f: "fixed_line line = line" using assms by (simp add: fixed_line_id)
  have "last ?ps \<in> set ?ps" using split_not_Nil by (rule last_in_set)
  then have n: "comma \<notin> set (last ?ps)" by (rule split_no_sep)
  from c n have "last ?ps \<noteq> join comma (drop 7 ?ps)" by metis
  with c n f assms show ?thesis by simp
qed



theorem repaired_line_last_field_witness:
  "length (split comma ''7,Desk,Office,$10.00,2,2024-01-05,C7,ann@shop,com'') = 9
   \<and> last (take 7 (split comma ''7,Desk,Office,$10.00,2,2024-01-05,C7,ann@shop,com'')
        @ [join comma (drop 7 (split comma ''7,Desk,Office,$10.00,2,2024-01-05,C7,ann@shop,com''))])
        = ''ann@shop,com''
   \<and> last (split comma (fixed_line ''7,Desk,Office,$10.00,2,2024-01-05,C7,ann@shop,com''))
        = ''com''"
proof -
  let ?l = "''7,Desk,Office,$10.00,2,2024-01-05,C7,ann@shop,com''"
  have sp: "split comma ?l = [''7'', ''Desk'', ''Office'', ''$10.00'', ''2'', ''2024-01-05'',
       ''C7'', ''ann@shop'', ''com'']"
    by simp
  have h: "length (split comma ?l) = 9"
    by (simp only: sp) simp
  have j: "join comma (drop 7 (split comma ?l)) = ''ann@shop,com''"
    by (simp only: sp) simp
  have f: "fixed_line ?l = ?l"
    by (rule fixed_line_id) (simp add: h)
  have a: "last (take 7 (split comma ?l) @ [join comma (drop 7 (split comma ?l))]) = ''ann@shop,com''"
    using repaired_line_last_field [OF h] by (simp only: j)
  have b: "last (split comma (fixed_line ?l)) = ''com''"
    by (simp only: f sp) simp
  show ?thesis by (rule conjI [OF h conjI [OF a b]])
qed

text \<open>
  C2. The first line is kept whatever it looks like and whatever the other lines are:
  the kept lines are always the header followed by the accepted data lines, the loop
  raises nothing, and the text handed to the table parser is made of those lines only.
  A data line that is not blank, does not have seven commas and does not split into nine
  parts is not accepted and adds nothing: with such a line in the file, the kept lines
  are the header and the accepted lines before and after it.
\<close>

theorem header_kept_misshapen_dropped:
  "(\<exists>header rest.
       split newline (replace ''bob.wilson@,'' ''bob.wilson@company.com'' content) = header # rest
     \<and> good_lines content = Inr (header # filter accepted rest)
     \<and> load_csv read_csv content = read_csv (join newline (header # filter accepted rest)))
   \<and> (strip l \<noteq> [] \<and> count comma l \<noteq> 7 \<and> length (split comma l) \<noteq> 9 \<longrightarrow>
        \<not> accepted l \<and> repair_line l = [])
   \<and> (split newline (replace ''bob.wilson@,'' ''bob.wilson@company.com'' content)
          = header # pre @ l # post
        \<and> strip l \<noteq> [] \<and> count comma l \<noteq> 7 \<and> length (split comma l) \<noteq> 9 \<longrightarrow>
        good_lines content = Inr (header # filter accepted pre @ filter accepted post)
      \<and> load_csv read_csv content
          = read_csv (join newline (header # filter accepted pre @ filter accepted post)))"
proof (intro conjI impI)
  let ?ls = "split newline (replace ''bob.wilson@,'' ''bob.wilson@company.com'' content)"
  obtain h r where s: "?ls = h # r"
    using split_not_Nil [of newline "replace ''bob.wilson@,'' ''bob.wilson@company.com'' content"]
    by (cases ?ls) auto
  then have g: "good_lines content = Inr (h # filter accepted r)"
    by (simp add: good_lines_filter)
  then have "load_csv read_csv content = read_csv (join newline (h # filter accepted r))"
    by (simp add: load_csv_def)
  with s g show "\<exists>header rest. ?ls = header # rest
     \<and> good_lines content = Inr (header # filter accepted rest)
     \<and> load_csv read_csv content = read_csv (join newline (header # filter accepted rest))"
    by blast
next
  assume "strip l \<noteq> [] \<and> count comma l \<noteq> 7 \<and> length (split comma l) \<noteq> 9"
  then show n: "\<not> accepted l" by (simp add: accepted_def)
  then show "repair_line l = []" by (simp add: repair_line_filter)
next
  assume a: "split newline (replace ''bob.wilson@,'' ''bob.wilson@company.com'' content)
          = header # pre @ l # post
        \<and> strip l \<noteq> [] \<and> count comma l \<noteq> 7 \<and> length (split comma l) \<noteq> 9"
  then have "\<not> accepted l" by (simp add: accepted_def)
  then show g: "good_lines content = Inr (header # filter accepted pre @ filter accepted post)"
    using a by (simp add: good_lines_filter)
  then show "load_csv read_csv content
      = read_csv (join newline (header # filter accepted pre @ filter accepted post))"
    by (simp add: load_csv_def)
qed

theorem header_kept_misshapen_dropped_witness:
  "good_lines ''h1;h2\<newline>1,2,3,4,5,6,7,8'' = Inr [''h1;h2'', ''1,2,3,4,5,6,7,8'']
   \<and> good_lines ''h1,h2\<newline>a,b,c\<newline>1,2,3,4,5,6,7,8\<newline>''
     = Inr [''h1,h2'', ''1,2,3,4,5,6,7,8'']
   \<and> load_csv Inr ''h1,h2\<newline>a,b,c\<newline>1,2,3,4,5,6,7,8\<newline>''
     = (Inr ''h1,h2\<newline>1,2,3,4,5,6,7,8'' :: error + string)"
proof -
  let ?w = "''h1;h2\<newline>1,2,3,4,5,6,7,8''"
  let ?c = "''h1,h2\<newline>a,b,c\<newline>1,2,3,4,5,6,7,8\<newline>''"
  have rw: "replace ''bob.wilson@,'' ''bob.wilson@company.com'' ?w = ?w"
    by code_simp
  have sw: "split newline ?w = [''h1;h2'', ''1,2,3,4,5,6,7,8'']"
    by simp
  have fw: "filter accepted [''1,2,3,4,5,6,7,8''] = [''1,2,3,4,5,6,7,8'']"
    by code_simp
  obtain header rest where
    "split newline (replace ''bob.wilson@,'' ''bob.wilson@company.com'' ?w) = header # rest"
    and gw: "good_lines ?w = Inr (header # filter accepted rest)"
    using header_kept_misshapen_dropped [where content = ?w and read_csv = Inr and l = "[]"
        and header = "[]" and pre = "[]" and post = "[]", THEN conjunct1]
    by blast
  then have "header = ''h1;h2''" and "rest = [''1,2,3,4,5,6,7,8'']"
    by (simp_all only: rw sw list.inject)
  then have a: "good_lines ?w = Inr [''h1;h2'', ''1,2,3,4,5,6,7,8'']"
    using gw fw by simp
  have r: "replace ''bob.wilson@,'' ''bob.wilson@company.com'' ?c = ?c"
    by code_simp
  have h1: "split newline (replace ''bob.wilson@,'' ''bob.wilson@company.com'' ?c)
      = ''h1,h2'' # [] @ ''a,b,c'' # [''1,2,3,4,5,6,7,8'', '''']"
    by (simp only: r) simp
  have h2: "strip ''a,b,c'' \<noteq> []" by code_simp
  have h3: "count comma ''a,b,c'' \<noteq> 7" by (simp add: count_def)
  have h4: "length (split comma ''a,b,c'') \<noteq> 9" by simp
  have f1: "filter accepted [] = []" by simp
  have f2: "filter accepted [''1,2,3,4,5,6,7,8'', ''''] = [''1,2,3,4,5,6,7,8'']"
    by code_simp
  have b: "good_lines ?c = Inr [''h1,h2'', ''1,2,3,4,5,6,7,8'']
      \<and> load_csv Inr ?c = (Inr ''h1,h2\<newline>1,2,3,4,5,6,7,8'' :: error + string)"
    using header_kept_misshapen_dropped [where content = ?c and read_csv = Inr and l = "''a,b,c''"
        and header = "''h1,h2''" and pre = "[]" and post = "[''1,2,3,4,5,6,7,8'', '''']",
        THEN conjunct2, THEN conjunct2, THEN mp, OF conjI [OF h1 conjI [OF h2 conjI [OF h3 h4]]]]
    by (simp only: f1 f2 append_Nil, simp)
  show ?thesis by (rule conjI [OF a b])
qed









text \<open>
  C3. \<^verbatim>\<open>parse_date\<close> tries the four formats in the order ISO, day/month/year
  with slashes, day-month-year with dashes, year/month/day with slashes; the result is
  the date of the first format that the string matches and a missing value when none
  does; it always returns, whatever the string. A calendar date written out in any of
  the four formats, with a four-digit year and two-digit month and day, is read back as
  that date.
\<close>

theorem parse_date_first_format_wins:
  "parse_date s =
     (case strptime s ''%Y-%m-%d'' of Inr dt \<Rightarrow> Inr (Some dt) | Inl e1 \<Rightarrow>
     (case strptime s ''%d/%m/%Y'' of Inr dt \<Rightarrow> Inr (Some dt) | Inl e2 \<Rightarrow>
     (case strptime s ''%d-%m-%Y'' of Inr dt \<Rightarrow> Inr (Some dt) | Inl e3 \<Rightarrow>
     (case strptime s ''%Y/%m/%d'' of Inr dt \<Rightarrow> Inr (Some dt) | Inl e4 \<Rightarrow> Inr None))))
   \<and> (\<exists>r. parse_date s = Inr r)
   \<and> (valid_date y m d \<longrightarrow>
        parse_date (write_date ''%Y-%m-%d'' (Date y m d)) = Inr (Some (Date y m d))
      \<and> parse_date (write_date ''%d/%m/%Y'' (Date y m d)) = Inr (Some (Date y m d))
      \<and> parse_date (write_date ''%d-%m-%Y'' (Date y m d)) = Inr (Some (Date y m d))
      \<and> parse_date (write_date ''%Y/%m/%d'' (Date y m d)) = Inr (Some (Date y m d)))"
proof (intro conjI impI)
  show "parse_date s =
     (case strptime s ''%Y-%m-%d'' of Inr dt \<Rightarrow> Inr (Some dt) | Inl e1 \<Rightarrow>
     (case strptime s ''%d/%m/%Y'' of Inr dt \<Rightarrow> Inr (Some dt) | Inl e2 \<Rightarrow>
     (case strptime s ''%d-%m-%Y'' of Inr dt \<Rightarrow> Inr (Some dt) | Inl e3 \<Rightarrow>
     (case strptime s ''%Y/%m/%d'' of Inr dt \<Rightarrow> Inr (Some dt) | Inl e4 \<Rightarrow> Inr None))))"
    by (rule parse_date_cases)
  show "\<exists>r. parse_date s = Inr r"
    unfolding parse_date_cases by (simp split: sum.splits)
next
  assume v: "valid_date y m d"
  show "parse_date (write_date ''%Y-%m-%d'' (Date y m d)) = Inr (Some (Date y m d))"
    unfolding write_date_formats using v by (rule parse_iso)
  show "parse_date (write_date ''%d/%m/%Y'' (Date y m d)) = Inr (Some (Date y m d))"
    unfolding write_date_formats using v by (rule parse_dmy_slash)
  show "parse_date (write_date ''%d-%m-%Y'' (Date y m d)) = Inr (Some (Date y m d))"
    unfolding write_date_formats using v by (rule parse_dmy_dash)
  show "parse_date (write_date ''%Y/%m/%d'' (Date y m d)) = Inr (Some (Date y m d))"
    unfolding write_date_formats using v by (rule parse_ymd_slash)
qed

theorem parse_date_first_format_wins_witness:
  "valid_date 2024 2 29
   \<and> parse_date ''2024-02-29'' = Inr (Some (Date 2024 2 29))
   \<and> parse_date ''29/02/2024'' = Inr (Some (Date 2024 2 29))
   \<and> parse_date ''29-02-2024'' = Inr (Some (Date 2024 2 29))
   \<and> parse_date ''2024/02/29'' = Inr (Some (Date 2024 2 29))
   \<and> parse_date ''29.02.2024'' = Inr None"
proof -
  have v: "valid_date 2024 2 29"
    by (simp add: valid_date_def days_in_month_def is_leap_def)
  have w: "write_date ''%Y-%m-%d'' (Date 2024 2 29) = ''2024-02-29''"
    "write_date ''%d/%m/%Y'' (Date 2024 2 29) = ''29/02/2024''"
    "write_date ''%d-%m-%Y'' (Date 2024 2 29) = ''29-02-2024''"
    "write_date ''%Y/%m/%d'' (Date 2024 2 29) = ''2024/02/29''"
    by (simp_all add: digits4_def digits2_def digit_char_def)
  have n: "parse_date ''29.02.2024'' = Inr None"
    by (simp add: parse_date_cases strptime_def two_def one_def in_range_def is_digit_def
        digit_val_def)
  have "parse_date ''2024-02-29'' = Inr (Some (Date 2024 2 29))
   \<and> parse_date ''29/02/2024'' = Inr (Some (Date 2024 2 29))
   \<and> parse_date ''29-02-2024'' = Inr (Some (Date 2024 2 29))
   \<and> parse_date ''2024/02/29'' = Inr (Some (Date 2024 2 29))"
    using parse_date_first_format_wins [of "[]" 2024 2 29, THEN conjunct2, THEN conjunct2, THEN mp, OF v]
    unfolding w .
  with v n show ?thesis by (simp only: simp_thms)
qed

text \<open>
  C4, as the code has it. With the products table unique on (product name, category)
  once the product names are stripped, which is the table the merge receives, and the
  customers table deduplicated on the customer id as the script does, the merged table
  has exactly the sales rows, in their order, one row each: its length is the length of
  the sales table, and the product and the customer of a row are the product and the
  customer with the row's keys, or missing when there is none.
\<close>

theorem left_joins_preserve_sales_rows:
  assumes "distinct (map product_key (clean_products products))"
  shows "length (merged_data sales (clean_products products) (clean_customers customers))
           = length sales
       \<and> map m_sale (merged_data sales (clean_products products) (clean_customers customers))
           = sales
       \<and> map m_product (merged_data sales (clean_products products) (clean_customers customers))
           = map (\<lambda>s. List.find (\<lambda>p. product_key p = sale_key s) (clean_products products)) sales
       \<and> map m_customer (merged_data sales (clean_products products) (clean_customers customers))
           = map (\<lambda>s. List.find (\<lambda>c. c_customer_id c = customer_id s) (clean_customers customers))
               sales"
proof -
  note m = merged_data_unique [OF assms distinct_ids_clean_customers, of sales customers]
  show ?thesis unfolding m by (simp add: comp_def)
qed

theorem left_joins_preserve_sales_rows_witness:
  "let products = [\<lparr>p_product_name = Some ''Desk '', p_category = Some ''Office'', cost_price = Some 6\<rparr>];
       customers = [\<lparr>c_customer_id = Some ''C1'', name = Some ''Ann'', age = Some (Fin 30),
                      city = Some ''Leeds'', country = Some ''UK''\<rparr>,
                    \<lparr>c_customer_id = Some ''C1'', name = Some ''Ann'', age = Some (Fin 30),
                      city = Some ''Leeds'', country = Some ''UK''\<rparr>];
       sales = [\<lparr>order_id = Some ''1'', product_name = Some ''Desk'', category = Some ''Office'',
                  price = Some 10, quantity = Some 2, order_date = (), customer_id = Some ''C1'',
                  customer_email = None, revenue = Some 20\<rparr>,
                \<lparr>order_id = Some ''2'', product_name = Some ''Lamp'', category = Some ''Home'',
                  price = Some 5, quantity = Some 1, order_date = (), customer_id = None,
                  customer_email = None, revenue = Some 5\<rparr>]
   in distinct (map product_key (clean_products products))
      \<and> length (merged_data sales (clean_products products) (clean_customers customers)) = 2
      \<and> map m_sale (merged_data sales (clean_products products) (clean_customers customers)) = sales
      \<and> map m_cost_price (merged_data sales (clean_products products) (clean_customers customers))
          = [Some 6, None]
      \<and> map (map_option name) (map m_customer
            (merged_data sales (clean_products products) (clean_customers customers)))
          = [Some (Some ''Ann''), None]"
proof -
  define products where "products =
    [\<lparr>p_product_name = Some ''Desk '', p_category = Some ''Office'', cost_price = Some (6::rat)\<rparr>]"
  define customers where "customers =
    [\<lparr>c_customer_id = Some ''C1'', name = Some ''Ann'', age = Some (Fin 30),
        city = Some ''Leeds'', country = Some ''UK''\<rparr>,
     \<lparr>c_customer_id = Some ''C1'', name = Some ''Ann'', age = Some (Fin 30),
        city = Some ''Leeds'', country = Some ''UK''\<rparr>]"
  define sales :: "(num, unit) cleaned_sale list" where "sales =
    [\<lparr>order_id = Some ''1'', product_name = Some ''Desk'', category = Some ''Office'',
       price = Some 10, quantity = Some 2, order_date = (), customer_id = Some ''C1'',
       customer_email = None, revenue = Some 20\<rparr>,
     \<lparr>order_id = Some ''2'', product_name = Some ''Lamp'', category = Some ''Home'',
       price = Some 5, quantity = Some 1, order_date = (), customer_id = None,
       customer_email = None, revenue = Some 5\<rparr>]"
  have h: "distinct (map product_key (clean_products products))"
    unfolding products_def by (simp add: clean_products_def)
  note t = left_joins_preserve_sales_rows [OF h, of sales customers]
  have a: "length (merged_data sales (clean_products products) (clean_customers customers)) = 2"
    using t [THEN conjunct1] by (simp add: sales_def)
  have b: "map m_sale (merged_data sales (clean_products products) (clean_customers customers)) = sales"
    using t by (rule conjunct2 [THEN conjunct1])
  have c: "map m_cost_price (merged_data sales (clean_products products) (clean_customers customers))
          = [Some 6, None]
      \<and> map (map_option name) (map m_customer
            (merged_data sales (clean_products products) (clean_customers customers)))
          = [Some (Some ''Ann''), None]"
    unfolding products_def customers_def sales_def by code_simp
  have "distinct (map product_key (clean_products products))
      \<and> length (merged_data sales (clean_products products) (clean_customers customers)) = 2
      \<and> map m_sale (merged_data sales (clean_products products) (clean_customers customers)) = sales
      \<and> map m_cost_price (merged_data sales (clean_products products) (clean_customers customers))
          = [Some 6, None]
      \<and> map (map_option name) (map m_customer
            (merged_data sales (clean_products products) (clean_customers customers)))
          = [Some (Some ''Ann''), None]"
    by (rule conjI [OF h conjI [OF a conjI [OF b c]]])
  then show ?thesis unfolding products_def customers_def sales_def Let_def .
qed

text \<open>
  C4 as stated asks that the products be unique on (product name, category). The merge
  receives the products table after the product names are stripped: two products whose
  names differ only by surrounding white space are distinct in the file and the same
  after the strip, and a sale of that product comes out of the merge twice.
\<close>

theorem products_unique_before_strip_counterexample:
  "let products = [\<lparr>p_product_name = Some ''Desk'', p_category = Some ''Office'',
                     cost_price = Some 6\<rparr>,
                   \<lparr>p_product_name = Some ''Desk '', p_category = Some ''Office'',
                     cost_price = Some 7\<rparr>];
       sales = [\<lparr>order_id = Some ''1'', product_name = Some ''Desk'', category = Some ''Office'',
                  price = Some 10, quantity = Some 2, order_date = (), customer_id = Some ''C1'',
                  customer_email = None, revenue = Some 20\<rparr>]
   in distinct (map product_key products)
      \<and> length sales = 1
      \<and> length (merged_data sales (clean_products products) (clean_customers [])) = 2
      \<and> map m_cost_price (merged_data sales (clean_products products) (clean_customers []))
          = [Some 6, Some 7]"
  unfolding Let_def by code_simp

text \<open>
  C7. The cleaned price of a row is the number read from the raw price once the
  currency symbols are removed; in every merged row the revenue is price times quantity
  and the profit is price minus cost price, times quantity (missing when an operand is
  missing). A sale at "$10.00" with quantity 2 has revenue 20, and with a cost price of
  6 a profit of 8.
\<close>

theorem revenue_and_profit_columns:
  assumes "clean_sales to_datetime raw = Inr sales"
  shows "map (\<lambda>s. astype_float (map_option strip_currency (price s))) raw
           = map (\<lambda>s. Inr (price s)) sales
       \<and> list_all (\<lambda>r. revenue (m_sale r) = cell_mul (price (m_sale r)) (quantity (m_sale r))
                      \<and> profit r = cell_mul (cell_sub (price (m_sale r)) (m_cost_price r))
                                      (quantity (m_sale r)))
           (merged_data sales products customers)"
proof -
  have "revenue (m_sale r) = cell_mul (price (m_sale r)) (quantity (m_sale r))
      \<and> profit r = cell_mul (cell_sub (price (m_sale r)) (m_cost_price r)) (quantity (m_sale r))"
    if "r \<in> set (merged_data sales products customers)" for r
    using merged_data_rows [OF that] clean_sales_rows [OF assms] by simp
  then show ?thesis
    using clean_sales_prices(2) [OF assms] by (simp add: list_all_iff)
qed

theorem revenue_and_profit_columns_witness:
  "let raw = [\<lparr>order_id = Some ''1'', product_name = Some ''Desk'', category = Some ''Office'',
                price = Some ''$10.00'', quantity = Some 2, order_date = Some ''2024-01-05'',
                customer_id = Some ''C1'', customer_email = Some ''ann@shop.com''\<rparr>];
       products = [\<lparr>p_product_name = Some ''Desk'', p_category = Some ''Office'',
                     cost_price = Some 6\<rparr>]
   in \<exists>sales. clean_sales Inr raw = Inr sales
        \<and> map price sales = [Some 10]
        \<and> map revenue sales = [Some 20]
        \<and> map m_cost_price (merged_data sales products []) = [Some 6]
        \<and> map profit (merged_data sales products []) = [Some 8]
        \<and> list_all (\<lambda>r. revenue (m_sale r) = cell_mul (price (m_sale r)) (quantity (m_sale r))
                      \<and> profit r = cell_mul (cell_sub (price (m_sale r)) (m_cost_price r))
                                      (quantity (m_sale r)))
             (merged_data sales products [])"
proof -
  define raw where "raw =
    [\<lparr>order_id = Some ''1'', product_name = Some ''Desk'', category = Some ''Office'',
       price = Some ''$10.00'', quantity = Some (2::rat), order_date = Some ''2024-01-05'',
       customer_id = Some ''C1'', customer_email = Some ''ann@shop.com''\<rparr>]"
  define products where "products =
    [\<lparr>p_product_name = Some ''Desk'', p_category = Some ''Office'', cost_price = Some (6::rat)\<rparr>]"
  define sales :: "(num, date option) cleaned_sale list" where "sales =
    [\<lparr>order_id = Some ''1'', product_name = Some ''Desk'', category = Some ''Office'',
       price = Some 10, quantity = Some 2, order_date = Some (Date 2024 1 5),
       customer_id = Some ''C1'', customer_email = Some ''ann@shop.com'', revenue = Some 20\<rparr>]"
  have h: "clean_sales Inr raw = Inr sales"
    unfolding raw_def sales_def by code_simp
  note t = revenue_and_profit_columns [OF h, of products "[]", THEN conjunct2]
  have e: "map price sales = [Some 10] \<and> map revenue sales = [Some 20]
      \<and> map m_cost_price (merged_data sales products []) = [Some 6]
      \<and> map profit (merged_data sales products []) = [Some 8]"
    unfolding sales_def products_def by code_simp
  have "\<exists>sales. clean_sales Inr raw = Inr sales
        \<and> map price sales = [Some 10]
        \<and> map revenue sales = [Some 20]
        \<and> map m_cost_price (merged_data sales products []) = [Some 6]
        \<and> map profit (merged_data sales products []) = [Some 8]
        \<and> list_all (\<lambda>r. revenue (m_sale r) = cell_mul (price (m_sale r)) (quantity (m_sale r))
                      \<and> profit r = cell_mul (cell_sub (price (m_sale r)) (m_cost_price r))
                                      (quantity (m_sale r)))
             (merged_data sales products [])"
    using h e t by (intro exI [of _ sales]) simp
  then show ?thesis unfolding raw_def products_def Let_def .
qed

text \<open>
  C8. When any of the three loads raises (reading the sales file, repairing and parsing
  it, parsing the products file, parsing the customers file), the exception is caught:
  the run prints the error line and exits, having run no later statement and written
  no file. When the loads succeed the run never takes that exit: an exception raised
  by the cleaning, the aggregation, the report building, the creation of the reports
  directory or the writing of a file is not caught and ends the run as it is, with the
  files written before it left in place.
\<close>

theorem load_is_the_only_error_boundary:
  "((open_read w ''../data/project1_sales_data.csv'' = Inl e
      \<or> (\<exists>content. open_read w ''../data/project1_sales_data.csv'' = Inr content
            \<and> load_csv (pd_read_sales w) content = Inl e)
      \<or> (\<exists>s. load_sales w = Inr s
            \<and> (pd_read_products w ''../data/project1_product_data.csv'' = Inl e
               \<or> (\<exists>p. pd_read_products w ''../data/project1_product_data.csv'' = Inr p
                     \<and> pd_read_customers w ''../data/project1_customer_data.csv'' = Inl e))))
     \<longrightarrow> main w = Exited [''Loading data files...'', ''Error loading data: '' @ str_of w e]
         \<and> files_written (main w) = [])
   \<and> (load_all w = Inr (sales0, products0, customers0) \<longrightarrow>
        (\<forall>out. main w \<noteq> Exited out)
      \<and> (clean_sales (pd_to_datetime w) sales0 = Inl e \<longrightarrow>
            main w = Raised e [''Loading data files...'', ''Data loaded successfully!'',
                               ''\<newline>Cleaning data...''] [])
      \<and> (clean_sales (pd_to_datetime w) sales0 = Inr sales \<longrightarrow>
            (analyse w (merged_data sales (clean_products products0) (clean_customers customers0))
               = Inl e \<longrightarrow>
             main w = Raised e [''Loading data files...'', ''Data loaded successfully!'',
                                ''\<newline>Cleaning data...'', ''\<newline>Merging datasets...'',
                                ''\<newline>Analyzing data...''] [])
          \<and> (analyse w (merged_data sales (clean_products products0) (clean_customers customers0))
               = Inr results
             \<and> build_reports w sales (clean_products products0) (clean_customers customers0)
                 (merged_data sales (clean_products products0) (clean_customers customers0)) results
               = Inl e \<longrightarrow>
             main w = Raised e [''Loading data files...'', ''Data loaded successfully!'',
                                ''\<newline>Cleaning data...'', ''\<newline>Merging datasets...'',
                                ''\<newline>Analyzing data...'', ''\<newline>Generating reports...''] [])
          \<and> (analyse w (merged_data sales (clean_products products0) (clean_customers customers0))
               = Inr results
             \<and> build_reports w sales (clean_products products0) (clean_customers customers0)
                 (merged_data sales (clean_products products0) (clean_customers customers0)) results
               = Inr (cleaning_report, insights) \<longrightarrow>
             main w = save_output w [''Loading data files...'', ''Data loaded successfully!'',
                                ''\<newline>Cleaning data...'', ''\<newline>Merging datasets...'',
                                ''\<newline>Analyzing data...'', ''\<newline>Generating reports...'']
                        cleaning_report insights
                        (merged_data sales (clean_products products0) (clean_customers customers0)))))
   \<and> (os_makedirs w ''../reports'' = Some e \<longrightarrow>
         save_output w out cleaning_report insights merged = Raised e out [])
   \<and> (os_makedirs w ''../reports'' = None \<longrightarrow>
        (report_to_csv w cleaning_report ''../reports/data_cleaning_report.csv'' = Inl e \<longrightarrow>
           save_output w out cleaning_report insights merged = Raised e out [])
      \<and> (report_to_csv w cleaning_report ''../reports/data_cleaning_report.csv'' = Inr t1 \<longrightarrow>
           (report_to_csv w insights ''../reports/business_insights.csv'' = Inl e \<longrightarrow>
              save_output w out cleaning_report insights merged
                = Raised e out [(''../reports/data_cleaning_report.csv'', t1)])
         \<and> (report_to_csv w insights ''../reports/business_insights.csv'' = Inr t2
              \<and> merged_to_csv w merged ''../reports/cleaned_merged_data.csv'' = Inl e \<longrightarrow>
              save_output w out cleaning_report insights merged
                = Raised e out [(''../reports/data_cleaning_report.csv'', t1),
                                (''../reports/business_insights.csv'', t2)])))"
proof (intro conjI impI allI)
  assume "open_read w ''../data/project1_sales_data.csv'' = Inl e
      \<or> (\<exists>content. open_read w ''../data/project1_sales_data.csv'' = Inr content
            \<and> load_csv (pd_read_sales w) content = Inl e)
      \<or> (\<exists>s. load_sales w = Inr s
            \<and> (pd_read_products w ''../data/project1_product_data.csv'' = Inl e
               \<or> (\<exists>p. pd_read_products w ''../data/project1_product_data.csv'' = Inr p
                     \<and> pd_read_customers w ''../data/project1_customer_data.csv'' = Inl e)))"
  then have l: "load_all w = Inl e"
    unfolding load_all_Inl_iff load_sales_Inl_iff by blast
  then show "main w = Exited [''Loading data files...'', ''Error loading data: '' @ str_of w e]"
    by (simp add: main_def)
  then show "files_written (main w) = []" by simp
next
  fix out
  assume "load_all w = Inr (sales0, products0, customers0)"
  then show "main w \<noteq> Exited out"
    by (auto simp: main_def save_output_def Let_def split: sum.splits option.splits prod.splits)
next
  assume "load_all w = Inr (sales0, products0, customers0)"
    and "clean_sales (pd_to_datetime w) sales0 = Inl e"
  then show "main w = Raised e [''Loading data files...'', ''Data loaded successfully!'',
                               ''\<newline>Cleaning data...''] []"
    by (simp add: main_def)
next
  assume "load_all w = Inr (sales0, products0, customers0)"
    and "clean_sales (pd_to_datetime w) sales0 = Inr sales"
    and "analyse w (merged_data sales (clean_products products0) (clean_customers customers0))
               = Inl e"
  then show "main w = Raised e [''Loading data files...'', ''Data loaded successfully!'',
                                ''\<newline>Cleaning data...'', ''\<newline>Merging datasets...'',
                                ''\<newline>Analyzing data...''] []"
    by (simp add: main_def)
next
  assume "load_all w = Inr (sales0, products0, customers0)"
    and "clean_sales (pd_to_datetime w) sales0 = Inr sales"
    and "analyse w (merged_data sales (clean_products products0) (clean_customers customers0))
               = Inr results
             \<and> build_reports w sales (clean_products products0) (clean_customers customers0)
                 (merged_data sales (clean_products products0) (clean_customers customers0)) results
               = Inl e"
  then show "main w = Raised e [''Loading data files...'', ''Data loaded successfully!'',
                                ''\<newline>Cleaning data...'', ''\<newline>Merging datasets...'',
                                ''\<newline>Analyzing data...'', ''\<newline>Generating reports...''] []"
    by (simp add: main_def)
next
  assume "load_all w = Inr (sales0, products0, customers0)"
    and "clean_sales (pd_to_datetime w) sales0 = Inr sales"
    and "analyse w (merged_data sales (clean_products products0) (clean_customers customers0))
               = Inr results
             \<and> build_reports w sales (clean_products products0) (clean_customers customers0)
                 (merged_data sales (clean_products products0) (clean_customers customers0)) results
               = Inr (cleaning_report, insights)"
  then show "main w = save_output w [''Loading data files...'', ''Data loaded successfully!'',
                                ''\<newline>Cleaning data...'', ''\<newline>Merging datasets...'',
                                ''\<newline>Analyzing data...'', ''\<newline>Generating reports...'']
                        cleaning_report insights
                        (merged_data sales (clean_products products0) (clean_customers customers0))"
    by (simp add: main_def)
next
  assume "os_makedirs w ''../reports'' = Some e"
  then show "save_output w out cleaning_report insights merged = Raised e out []"
    by (simp add: save_output_def)
next
  assume "os_makedirs w ''../reports'' = None"
    and "report_to_csv w cleaning_report ''../reports/data_cleaning_report.csv'' = Inl e"
  then show "save_output w out cleaning_report insights merged = Raised e out []"
    by (simp add: save_output_def)
next
  assume "os_makedirs w ''../reports'' = None"
    and "report_to_csv w cleaning_report ''../reports/data_cleaning_report.csv'' = Inr t1"
    and "report_to_csv w insights ''../reports/business_insights.csv'' = Inl e"
  then show "save_output w out cleaning_report insights merged
                = Raised e out [(''../reports/data_cleaning_report.csv'', t1)]"
    by (simp add: save_output_def)
next
  assume "os_makedirs w ''../reports'' = None"
    and "report_to_csv w cleaning_report ''../reports/data_cleaning_report.csv'' = Inr t1"
    and "report_to_csv w insights ''../reports/business_insights.csv'' = Inr t2
              \<and> merged_to_csv w merged ''../reports/cleaned_merged_data.csv'' = Inl e"
  then show "save_output w out cleaning_report insights merged
                = Raised e out [(''../reports/data_cleaning_report.csv'', t1),
                                (''../reports/business_insights.csv'', t2)]"
    by (simp add: save_output_def)
qed

theorem load_is_the_only_error_boundary_witness:
  "let sale1 = \<lparr>order_id = Some ''1'', product_name = Some ''Desk'', category = Some ''Office'',
                 price = Some ''$10.00'', quantity = Some 2, order_date = Some ''2024-01-05'',
                 customer_id = Some ''C1'', customer_email = None\<rparr>;
       w0 = \<lparr>open_read = (\<lambda>p. Inr ''order_id''),
              pd_read_sales = (\<lambda>t. Inr [sale1]),
              pd_read_products = (\<lambda>p. Inr []),
              pd_read_customers = (\<lambda>p. Inr []),
              str_of = (\<lambda>e. ''No such file''),
              pd_to_datetime = Inr,
              analyse = (\<lambda>m. Inr ()),
              build_reports = (\<lambda>s p c m a. Inr (''issues'', ''insights'')),
              os_makedirs = (\<lambda>p. None),
              report_to_csv = (\<lambda>r p. Inr r),
              merged_to_csv = (\<lambda>m p. Inr ''rows'')\<rparr>;
       w1 = w0\<lparr>pd_read_products := (\<lambda>p. Inl FileNotFoundError)\<rparr>;
       w2 = w0\<lparr>pd_read_sales := (\<lambda>t. Inr [sale1\<lparr>price := Some ''1.2.3''\<rparr>])\<rparr>;
       w3 = w0\<lparr>analyse := (\<lambda>m. Inl IndexError)\<rparr>;
       w4 = w0\<lparr>build_reports := (\<lambda>s p c m a. Inl IndexError)\<rparr>;
       w5 = w0\<lparr>report_to_csv := (\<lambda>r p. if r = ''insights'' then Inl ParserError else Inr r)\<rparr>
   in main w1 = Exited [''Loading data files...'', ''Error loading data: No such file'']
      \<and> files_written (main w1) = []
      \<and> main w2 = Raised ValueError [''Loading data files...'', ''Data loaded successfully!'',
                                  ''\<newline>Cleaning data...''] []
      \<and> main w3 = Raised IndexError [''Loading data files...'', ''Data loaded successfully!'',
                                ''\<newline>Cleaning data...'', ''\<newline>Merging datasets...'',
                                ''\<newline>Analyzing data...''] []
      \<and> main w4 = Raised IndexError [''Loading data files...'', ''Data loaded successfully!'',
                                ''\<newline>Cleaning data...'', ''\<newline>Merging datasets...'',
                                ''\<newline>Analyzing data...'', ''\<newline>Generating reports...''] []
      \<and> main w5 = Raised ParserError [''Loading data files...'', ''Data loaded successfully!'',
                                ''\<newline>Cleaning data...'', ''\<newline>Merging datasets...'',
                                ''\<newline>Analyzing data...'', ''\<newline>Generating reports...'']
                     [(''../reports/data_cleaning_report.csv'', ''issues'')]"
proof -
  define sale1 :: "(string option, string option) sale" where "sale1 =
     \<lparr>order_id = Some ''1'', product_name = Some ''Desk'', category = Some ''Office'',
       price = Some ''$10.00'', quantity = Some 2, order_date = Some ''2024-01-05'',
       customer_id = Some ''C1'', customer_email = None\<rparr>"
  define csale1 :: "(num, date option) cleaned_sale" where "csale1 =
     \<lparr>order_id = Some ''1'', product_name = Some ''Desk'', category = Some ''Office'',
       price = Some 10, quantity = Some 2, order_date = Some (Date 2024 1 5),
       customer_id = Some ''C1'', customer_email = None, revenue = Some 20\<rparr>"
  define w0 :: "(date option, unit, string) world" where "w0 =
     \<lparr>open_read = (\<lambda>p. Inr ''order_id''),
       pd_read_sales = (\<lambda>t. Inr [sale1]),
       pd_read_products = (\<lambda>p. Inr []),
       pd_read_customers = (\<lambda>p. Inr []),
       str_of = (\<lambda>e. ''No such file''),
       pd_to_datetime = Inr,
       analyse = (\<lambda>m. Inr ()),
       build_reports = (\<lambda>s p c m a. Inr (''issues'', ''insights'')),
       os_makedirs = (\<lambda>p. None),
       report_to_csv = (\<lambda>r p. Inr r),
       merged_to_csv = (\<lambda>m p. Inr ''rows'')\<rparr>"
  define w1 where "w1 = w0\<lparr>pd_read_products := (\<lambda>p. Inl FileNotFoundError)\<rparr>"
  define w2 where "w2 = w0\<lparr>pd_read_sales := (\<lambda>t. Inr [sale1\<lparr>price := Some ''1.2.3''\<rparr>])\<rparr>"
  define w3 where "w3 = w0\<lparr>analyse := (\<lambda>m. Inl IndexError)\<rparr>"
  define w4 where "w4 = w0\<lparr>build_reports := (\<lambda>s p c m a. Inl IndexError)\<rparr>"
  define w5 where
    "w5 = w0\<lparr>report_to_csv := (\<lambda>r p. if r = ''insights'' then Inl ParserError else Inr r)\<rparr>"
  define out4 where "out4 = [''Loading data files...'', ''Data loaded successfully!'',
                      ''\<newline>Cleaning data...'', ''\<newline>Merging datasets...'',
                      ''\<newline>Analyzing data...'', ''\<newline>Generating reports...'']"
  define merged1 :: "date option merged list" where
    "merged1 = merged_data [csale1] (clean_products []) (clean_customers [])"
  have g: "good_lines ''order_id'' = Inr [''order_id'']"
    by code_simp
  have ls: "load_sales w = Inr [s]"
    if "open_read w = (\<lambda>p. Inr ''order_id'')" and "pd_read_sales w = (\<lambda>t. Inr [s])" for w s
    using that by (simp add: load_sales_def load_csv_def g)
  have cs: "clean_sales Inr [sale1] = Inr [csale1]"
    unfolding sale1_def csale1_def by code_simp
  have cf: "clean_sales Inr [sale1\<lparr>price := Some ''1.2.3''\<rparr>]
      = (Inl ValueError :: error + (num, date option) cleaned_sale list)"
    unfolding sale1_def by code_simp
  have 1: "\<exists>s. load_sales w1 = Inr s
            \<and> (pd_read_products w1 ''../data/project1_product_data.csv'' = Inl FileNotFoundError
               \<or> (\<exists>p. pd_read_products w1 ''../data/project1_product_data.csv'' = Inr p
                     \<and> pd_read_customers w1 ''../data/project1_customer_data.csv''
                         = Inl FileNotFoundError))"
    using ls [of w1 sale1] by (simp add: w1_def w0_def)
  have a: "main w1 = Exited [''Loading data files...'', ''Error loading data: No such file'']
      \<and> files_written (main w1) = []"
    using load_is_the_only_error_boundary [where w = w1 and e = FileNotFoundError, THEN conjunct1] 1
    by (simp add: w1_def w0_def)
  have l2: "load_all w2 = Inr ([sale1\<lparr>price := Some ''1.2.3''\<rparr>], [], [])"
    using ls [of w2 "sale1\<lparr>price := Some ''1.2.3''\<rparr>"] by (simp add: load_all_def w2_def w0_def)
  have b: "main w2 = Raised ValueError [''Loading data files...'', ''Data loaded successfully!'',
                                  ''\<newline>Cleaning data...''] []"
    using load_is_the_only_error_boundary [where w = w2 and e = ValueError, THEN conjunct2,
        THEN conjunct1, THEN mp, OF l2, THEN conjunct2, THEN conjunct1] cf
    by (simp add: w2_def w0_def)
  have l3: "load_all w3 = Inr ([sale1], [], [])"
    using ls [of w3 sale1] by (simp add: load_all_def w3_def w0_def)
  have c: "main w3 = Raised IndexError [''Loading data files...'', ''Data loaded successfully!'',
                                ''\<newline>Cleaning data...'', ''\<newline>Merging datasets...'',
                                ''\<newline>Analyzing data...''] []"
    using load_is_the_only_error_boundary [where w = w3 and e = IndexError and sales = "[csale1]",
        THEN conjunct2, THEN conjunct1, THEN mp, OF l3, THEN conjunct2, THEN conjunct2, THEN mp,
        THEN conjunct1] cs
    by (simp add: w3_def w0_def)
  have l4: "load_all w4 = Inr ([sale1], [], [])"
    using ls [of w4 sale1] by (simp add: load_all_def w4_def w0_def)
  have d: "main w4 = Raised IndexError [''Loading data files...'', ''Data loaded successfully!'',
                                ''\<newline>Cleaning data...'', ''\<newline>Merging datasets...'',
                                ''\<newline>Analyzing data...'', ''\<newline>Generating reports...''] []"
    using load_is_the_only_error_boundary [where w = w4 and e = IndexError and sales = "[csale1]"
        and results = "()", THEN conjunct2, THEN conjunct1, THEN mp, OF l4, THEN conjunct2,
        THEN conjunct2, THEN mp, THEN conjunct2, THEN conjunct1] cs
    by (simp add: w4_def w0_def)
  have l5: "load_all w5 = Inr ([sale1], [], [])"
    using ls [of w5 sale1] by (simp add: load_all_def w5_def w0_def)
  note t5 = load_is_the_only_error_boundary [where w = w5 and e = ParserError
      and sales = "[csale1]" and results = "()" and cleaning_report = "''issues''"
      and insights = "''insights''" and ?t1.0 = "''issues''" and out = out4 and merged = merged1]
  have m5: "main w5 = save_output w5 out4 ''issues'' ''insights'' merged1"
    unfolding out4_def merged1_def
    using t5 [THEN conjunct2, THEN conjunct1, THEN mp, OF l5, THEN conjunct2, THEN conjunct2,
        THEN mp, THEN conjunct2, THEN conjunct2] cs
    by (simp add: w5_def w0_def)
  have s5: "save_output w5 out4 ''issues'' ''insights'' merged1
      = Raised ParserError out4 [(''../reports/data_cleaning_report.csv'', ''issues'')]"
    using t5 [THEN conjunct2, THEN conjunct2, THEN conjunct2, THEN mp, THEN conjunct2, THEN mp,
        THEN conjunct1]
    by (simp add: w5_def w0_def)
  have e: "main w5 = Raised ParserError [''Loading data files...'', ''Data loaded successfully!'',
                                ''\<newline>Cleaning data...'', ''\<newline>Merging datasets...'',
                                ''\<newline>Analyzing data...'', ''\<newline>Generating reports...'']
                     [(''../reports/data_cleaning_report.csv'', ''issues'')]"
    using m5 s5 unfolding out4_def by (rule trans)
  have "main w1 = Exited [''Loading data files...'', ''Error loading data: No such file'']
      \<and> files_written (main w1) = []
      \<and> main w2 = Raised ValueError [''Loading data files...'', ''Data loaded successfully!'',
                                  ''\<newline>Cleaning data...''] []
      \<and> main w3 = Raised IndexError [''Loading data files...'', ''Data loaded successfully!'',
                                ''\<newline>Cleaning data...'', ''\<newline>Merging datasets...'',
                                ''\<newline>Analyzing data...''] []
      \<and> main w4 = Raised IndexError [''Loading data files...'', ''Data loaded successfully!'',
                                ''\<newline>Cleaning data...'', ''\<newline>Merging datasets...'',
                                ''\<newline>Analyzing data...'', ''\<newline>Generating reports...''] []
      \<and> main w5 = Raised ParserError [''Loading data files...'', ''Data loaded successfully!'',
                                ''\<newline>Cleaning data...'', ''\<newline>Merging datasets...'',
                                ''\<newline>Analyzing data...'', ''\<newline>Generating reports...'']
                     [(''../reports/data_cleaning_report.csv'', ''issues'')]"
    by (rule conjI [OF a [THEN conjunct1] conjI [OF a [THEN conjunct2]
          conjI [OF b conjI [OF c conjI [OF d e]]]]])
  then show ?thesis
    unfolding w1_def w2_def w3_def w4_def w5_def w0_def sale1_def Let_def .
qed

end
